theory Spec2Isabelle
  imports Complex_Main "HOL-Library.Word"
begin

section \<open>The realtime client: session and response orchestration\<close>

text \<open>
  A shallow embedding of the class \<open>RealtimeClient\<close>. Every method becomes a function
  from the client (and its arguments) to a pair: the value returned or the error thrown,
  and the client afterwards. A thrown error does not undo what the method did before
  throwing, so the client is returned in the error case too.

  The collaborators of the client live in other files of the repository (the transport
  \<open>RealtimeAPI\<close>, the assembler \<open>RealtimeConversation\<close>, the codec \<open>RealtimeUtils\<close>, the
  dispatch bus \<open>RealtimeEventHandler\<close>). What the client needs of them is modelled from
  their description or taken as a parameter, and marked so.

  Boundaries of the model. A tool handler is a pure function of its argument: it neither
  changes the client nor stays pending. The zero of a number carries no sign.
\<close>

subsection \<open>Data model\<close>

datatype json =
    JNull
  | JBool bool
  | JNum rat
  | JStr string
  | JArr "json list"
  | JObj "(string \<times> json) list"

text \<open>
  What a \<open>throw\<close> or a rejected promise carries: an \<open>Error\<close> or a \<open>TypeError\<close> with its
  message; another value that is neither \<open>null\<close> nor \<open>undefined\<close>, with what its \<open>message\<close>
  property reads (\<open>None\<close> for \<open>undefined\<close>); or \<open>null\<close> or \<open>undefined\<close> itself.
\<close>

datatype error = Error string | TypeError string | ThrownValue "json option" | ThrownNullish

text \<open>
  \<open>{ error: e.message }\<close> in a \<open>catch\<close> block. Reading \<open>message\<close> of \<open>null\<close> or \<open>undefined\<close>
  throws a type error, whose text is a placeholder. A property whose value is \<open>undefined\<close>
  is left out when the object is serialized, so the object is the empty one then.
\<close>

fun error_payload :: "error \<Rightarrow> error + json" where
  "error_payload (Error m) = Inr (JObj [(''error'', JStr m)])"
| "error_payload (TypeError m) = Inr (JObj [(''error'', JStr m)])"
| "error_payload (ThrownValue (Some v)) = Inr (JObj [(''error'', v)])"
| "error_payload (ThrownValue None) = Inr (JObj [])"
| "error_payload ThrownNullish = Inl (TypeError ''Cannot read properties of null'')"

subsection \<open>Numbers\<close>

text \<open>
  A JavaScript number is a binary64 float: a finite value, one of the two infinities, or
  \<open>NaN\<close>. A finite value is the rational it denotes. Every arithmetic operation computes
  the exact result and rounds it to the nearest representable value, ties to the even
  significand, as \<open>round_double\<close> does: 53 significant bits, exponents from -1022 (below
  which the spacing stays \<open>2 ^ -1074\<close>) to 1023, and infinity from \<open>2 ^ 1024\<close> on.
\<close>

datatype js_number = Finite rat | PosInfinity | NegInfinity | NaN

function bit_length :: "int \<Rightarrow> nat" where
  "bit_length a = (if a \<le> 0 then 0 else Suc (bit_length (a div 2)))"
  by pat_completeness auto
termination
  by (relation "measure nat") auto

declare bit_length.simps [simp del]

definition pow2 :: "int \<Rightarrow> rat" where
  "pow2 k = (if 0 \<le> k then 2 ^ nat k else 1 / 2 ^ nat (- k))"

text \<open>
  The exponent \<open>e\<close> of a positive rational: \<open>2 ^ e \<le> q < 2 ^ (e + 1)\<close>. The difference of
  the bit lengths of numerator and denominator is \<open>e\<close> or \<open>e + 1\<close>.
\<close>

definition binary_exponent :: "rat \<Rightarrow> int" where
  "binary_exponent q =
     (let (a, b) = quotient_of q;
          d = int (bit_length a) - int (bit_length b)
      in if pow2 d \<le> q then d else d - 1)"

definition round_half_even :: "rat \<Rightarrow> int" where
  "round_half_even r =
     (let f = \<lfloor>r\<rfloor>; d = r - of_int f
      in if d < 1 / 2 then f
         else if 1 / 2 < d then f + 1
         else if even f then f else f + 1)"

definition round_double :: "rat \<Rightarrow> js_number" where
  "round_double q =
     (if q = 0 then Finite 0
      else
        (let e = max (binary_exponent \<bar>q\<bar>) (- 1022);
             u = pow2 (e - 52);
             r = of_int (round_half_even (\<bar>q\<bar> / u)) * u
         in if pow2 1024 \<le> r then (if 0 < q then PosInfinity else NegInfinity)
            else Finite (if 0 < q then r else - r)))"

text \<open>The operators \<open>/\<close> and \<open>*\<close>, and \<open>Math.floor\<close>.\<close>

fun js_divide :: "js_number \<Rightarrow> js_number \<Rightarrow> js_number" where
  "js_divide NaN y = NaN"
| "js_divide x NaN = NaN"
| "js_divide (Finite a) (Finite b) =
     (if b = 0 then (if a = 0 then NaN else if 0 < a then PosInfinity else NegInfinity)
      else round_double (a / b))"
| "js_divide (Finite a) y = Finite 0"
| "js_divide PosInfinity (Finite b) = (if 0 \<le> b then PosInfinity else NegInfinity)"
| "js_divide NegInfinity (Finite b) = (if 0 \<le> b then NegInfinity else PosInfinity)"
| "js_divide x y = NaN"

fun js_times :: "js_number \<Rightarrow> js_number \<Rightarrow> js_number" where
  "js_times NaN y = NaN"
| "js_times x NaN = NaN"
| "js_times (Finite a) (Finite b) = round_double (a * b)"
| "js_times (Finite a) PosInfinity =
     (if a = 0 then NaN else if 0 < a then PosInfinity else NegInfinity)"
| "js_times (Finite a) NegInfinity =
     (if a = 0 then NaN else if 0 < a then NegInfinity else PosInfinity)"
| "js_times PosInfinity (Finite b) =
     (if b = 0 then NaN else if 0 < b then PosInfinity else NegInfinity)"
| "js_times NegInfinity (Finite b) =
     (if b = 0 then NaN else if 0 < b then NegInfinity else PosInfinity)"
| "js_times PosInfinity PosInfinity = PosInfinity"
| "js_times NegInfinity NegInfinity = PosInfinity"
| "js_times x y = NegInfinity"

fun Math_floor :: "js_number \<Rightarrow> js_number" where
  "Math_floor (Finite a) = Finite (of_int \<lfloor>a\<rfloor>)"
| "Math_floor x = x"

subsection \<open>Objects used as dictionaries\<close>

text \<open>
  An object literal \<open>{}\<close> that is used as a dictionary is its own properties, kept here with
  their values in the order of creation, on top of what it inherits from the object
  prototype. Reading \<open>obj[key]\<close> gives the own value, else the inherited one, else
  \<open>undefined\<close>; the inherited values are functions and objects, all truthy.
\<close>

definition Object_prototype_names :: "string list" where
  "Object_prototype_names =
     [''constructor'', ''hasOwnProperty'', ''isPrototypeOf'', ''propertyIsEnumerable'',
      ''toLocaleString'', ''toString'', ''valueOf'', ''__proto__'', ''__defineGetter__'',
      ''__defineSetter__'', ''__lookupGetter__'', ''__lookupSetter__'']"

datatype 'a property = Own 'a | Inherited | Undefined

definition get_property :: "(string \<times> 'a) list \<Rightarrow> string \<Rightarrow> 'a property" where
  "get_property obj key =
     (case map_of obj key of
        Some v \<Rightarrow> Own v
      | None \<Rightarrow> if key \<in> set Object_prototype_names then Inherited else Undefined)"

text \<open>\<open>delete obj[key]\<close> removes an own property and nothing else.\<close>

definition delete_property :: "(string \<times> 'a) list \<Rightarrow> string \<Rightarrow> (string \<times> 'a) list" where
  "delete_property obj key = filter (\<lambda>(k, v). k \<noteq> key) obj"

text \<open>
  \<open>Object.keys\<close> lists the own keys that are array indices first, in ascending numeric
  order, and the other keys after them in the order of creation. An array index is the
  canonical decimal form of an integer from 0 to \<open>2 ^ 32 - 2\<close>. \<open>own_entries\<close> is the own
  properties in that order.
\<close>

definition is_digit :: "char \<Rightarrow> bool" where
  "is_digit ch \<longleftrightarrow> (48 :: nat) \<le> of_char ch \<and> of_char ch \<le> (57 :: nat)"

definition decimal_value :: "string \<Rightarrow> nat" where
  "decimal_value s = foldl (\<lambda>acc ch. 10 * acc + (of_char ch - 48)) 0 s"

definition is_array_index :: "string \<Rightarrow> bool" where
  "is_array_index s \<longleftrightarrow>
     s \<noteq> [] \<and> list_all is_digit s \<and> (s = ''0'' \<or> hd s \<noteq> CHR ''0'')
     \<and> decimal_value s < 2 ^ 32 - 1"

definition own_entries :: "(string \<times> 'a) list \<Rightarrow> (string \<times> 'a) list" where
  "own_entries obj =
     sort_key (\<lambda>(k, v). decimal_value k) (filter (\<lambda>(k, v). is_array_index k) obj)
     @ filter (\<lambda>(k, v). \<not> is_array_index k) obj"

datatype AudioFormatType = pcm16 | g711_ulaw | g711_alaw

datatype VoiceType = alloy | shimmer | echo

datatype ToolChoiceType = ToolChoiceAuto | ToolChoiceNone | ToolChoiceRequired | ToolChoiceFunction string

datatype MaxTokensType = Tokens rat | Inf

record AudioTranscriptionType =
  transcription_model :: string

record TurnDetectionServerVadType =
  vad_type :: string
  threshold :: "rat option"
  prefix_padding_ms :: "rat option"
  silence_duration_ms :: "rat option"

record ToolDefinitionType =
  tool_type :: "string option"
  name :: string
  description :: string
  parameters :: json

text \<open>
  Every field of a session resource is optional: \<open>None\<close> is \<open>undefined\<close> (absent, the
  unset sentinel \<open>void 0\<close>). The two nullable fields have a second layer: \<open>Some None\<close> is
  an explicit \<open>null\<close>.
\<close>

record SessionResourceType =
  model :: "string option"
  modalities :: "string list option"
  instructions :: "string option"
  voice :: "VoiceType option"
  input_audio_format :: "AudioFormatType option"
  output_audio_format :: "AudioFormatType option"
  input_audio_transcription :: "AudioTranscriptionType option option"
  turn_detection :: "TurnDetectionServerVadType option option"
  session_tools :: "ToolDefinitionType list option"
  tool_choice :: "ToolChoiceType option"
  temperature :: "rat option"
  max_response_output_tokens :: "MaxTokensType option"

datatype ItemStatusType = in_progress | completed | incomplete

datatype ItemKind = Message | FunctionCall | FunctionCallOutput

datatype RoleType = System | User | Assistant

datatype ContentKind = InputText | InputAudio | Text | Audio

record ContentType =
  content_type :: ContentKind
  content_text :: "string option"
  content_audio :: "string option"
  content_transcript :: "string option"

record FormattedToolType =
  formatted_tool_type :: string
  tool_name :: string
  call_id :: string
  arguments :: string

record FormattedPropertyType =
  formatted_audio :: "16 word list option"
  formatted_text :: "string option"
  formatted_transcript :: "string option"
  tool :: "FormattedToolType option"
  formatted_output :: "string option"

record ItemType =
  item_id :: string
  item_type :: ItemKind
  role :: "RoleType option"
  status :: "ItemStatusType option"
  content :: "ContentType list"
  formatted :: FormattedPropertyType

text \<open>
  Audio handed to the client by its caller: already base64 text, or raw binary of one of
  the two kinds the client tests for.
\<close>

datatype raw_audio = ArrayBuffer "8 word list" | Int16Array "16 word list"

datatype audio_data = Encoded string | Raw raw_audio

datatype user_content =
    InputTextContent string
  | InputAudioContent "audio_data option" "string option"

text \<open>The item of a \<open>conversation.item.create\<close> command.\<close>

datatype item_payload =
    UserMessage "user_content list"
  | FunctionCallOutputItem string "string option"

text \<open>An outbound command: the event name and the data passed to \<open>send\<close>.\<close>

datatype payload =
    NoData
  | SessionData SessionResourceType
  | AudioData string
  | ItemData item_payload
  | ItemIdData string
  | TruncateData string int js_number

type_synonym command = "string \<times> payload"

subsection \<open>The transport\<close>

record RealtimeAPI =
  connected :: bool
  outbox :: "command list"

definition isConnected_api :: "RealtimeAPI \<Rightarrow> bool" where
  "isConnected_api r = connected r"

text \<open>
  Modelled from the spec: \<open>RealtimeAPI.send\<close>, whose file is not among the sources. The
  transport forwards a command verbatim, and sending while not connected is a synchronous
  error; the text of that error is not given and is a placeholder. The outbox is the
  sequence of commands sent so far, in order.
\<close>

definition send :: "RealtimeAPI \<Rightarrow> string \<Rightarrow> payload \<Rightarrow> error + RealtimeAPI" where
  "send r eventName data =
     (if \<not> isConnected_api r then Inl (Error ''RealtimeAPI is not connected'')
      else Inr (r\<lparr>outbox := outbox r @ [(eventName, data)]\<rparr>))"

text \<open>Modelled from the spec: \<open>RealtimeAPI.disconnect\<close> closes the connection.\<close>

definition disconnect_api :: "RealtimeAPI \<Rightarrow> RealtimeAPI" where
  "disconnect_api r = r\<lparr>connected := False\<rparr>"

text \<open>Modelled from the spec: \<open>RealtimeAPI.connect\<close> opens the connection.\<close>

definition connect_api :: "RealtimeAPI \<Rightarrow> RealtimeAPI" where
  "connect_api r = r\<lparr>connected := True\<rparr>"

subsection \<open>The conversation, as far as the client reads and writes it\<close>

record RealtimeConversation =
  defaultFrequency :: nat
  items :: "ItemType list"
  queuedInputAudio :: "16 word list list"

text \<open>Modelled from the spec: \<open>getItem(id)\<close> is the read accessor, a lookup by id.\<close>

definition getItem :: "RealtimeConversation \<Rightarrow> string \<Rightarrow> ItemType option" where
  "getItem conv i = find (\<lambda>it. item_id it = i) (items conv)"

text \<open>
  Modelled from the spec: \<open>queueInputAudio(samples)\<close> appends to the Queued Input Audio
  FIFO.
\<close>

definition queueInputAudio :: "RealtimeConversation \<Rightarrow> 16 word list \<Rightarrow> RealtimeConversation" where
  "queueInputAudio conv inputAudio = conv\<lparr>queuedInputAudio := queuedInputAudio conv @ [inputAudio]\<rparr>"

text \<open>Modelled from the spec: \<open>clear()\<close> empties the collection and the lookup.\<close>

definition clear :: "RealtimeConversation \<Rightarrow> RealtimeConversation" where
  "clear conv = conv\<lparr>items := []\<rparr>"

subsection \<open>The client\<close>

text \<open>
  A tool handler returns a value (\<open>None\<close> for \<open>undefined\<close>) or throws; a handler that returns
  a promise is the outcome of the promise.
\<close>

datatype handler_arg = Function "json \<Rightarrow> error + json option" | NotAFunction

record ToolConfig =
  tool_definition :: ToolDefinitionType
  handler :: "json \<Rightarrow> error + json option"

datatype dispatch_payload =
    NoPayload
  | ItemOnly "ItemType option"
  | ItemDelta ItemType "json option"

record RealtimeClient =
  defaultSessionConfig :: SessionResourceType
  sessionConfig :: SessionResourceType
  realtime :: RealtimeAPI
  conversation :: RealtimeConversation
  sessionCreated :: bool
  tools :: "(string \<times> ToolConfig) list"
  inputAudioBuffer :: "16 word list"
  dispatched :: "(string \<times> dispatch_payload) list"

type_synonym 'a outcome = "(error + 'a) \<times> RealtimeClient"

definition isConnected :: "RealtimeClient \<Rightarrow> bool" where
  "isConnected c = isConnected_api (realtime c)"

text \<open>
  \<open>getTurnDetectionType\<close>: \<open>this.sessionConfig.turn_detection?.type || null\<close>. An absent or
  null \<open>turn_detection\<close> and an empty type string all give \<open>null\<close>.
\<close>

definition getTurnDetectionType :: "RealtimeClient \<Rightarrow> string option" where
  "getTurnDetectionType c =
     (case turn_detection (sessionConfig c) of
        None \<Rightarrow> None
      | Some None \<Rightarrow> None
      | Some (Some td) \<Rightarrow> (if vad_type td = [] then None else Some (vad_type td)))"

text \<open>The byte length of an \<open>Int16Array\<close>: two bytes a sample.\<close>

definition byteLength :: "16 word list \<Rightarrow> nat" where
  "byteLength xs = 2 * length xs"

definition createResponse :: "RealtimeClient \<Rightarrow> bool outcome" where
  "createResponse c =
     (if getTurnDetectionType c = None \<and> byteLength (inputAudioBuffer c) > 0 then
        (case send (realtime c) ''input_audio_buffer.commit'' NoData of
           Inl e \<Rightarrow> (Inl e, c)
         | Inr r1 \<Rightarrow>
             (let c1 = c\<lparr>realtime := r1,
                         conversation := queueInputAudio (conversation c) (inputAudioBuffer c),
                         inputAudioBuffer := []\<rparr>
              in case send (realtime c1) ''response.create'' NoData of
                   Inl e \<Rightarrow> (Inl e, c1)
                 | Inr r2 \<Rightarrow> (Inr True, c1\<lparr>realtime := r2\<rparr>)))
      else
        (case send (realtime c) ''response.create'' NoData of
           Inl e \<Rightarrow> (Inl e, c)
         | Inr r2 \<Rightarrow> (Inr True, c\<lparr>realtime := r2\<rparr>)))"

text \<open>
  \<open>_resetConfig\<close>. The deep copy of the default configuration through JSON is the
  configuration itself in this model.
\<close>

definition resetConfig :: "RealtimeClient \<Rightarrow> RealtimeClient" where
  "resetConfig c =
     c\<lparr>sessionCreated := False,
       tools := [],
       sessionConfig := defaultSessionConfig c,
       inputAudioBuffer := []\<rparr>"

definition disconnect :: "RealtimeClient \<Rightarrow> RealtimeClient" where
  "disconnect c =
     c\<lparr>sessionCreated := False,
       realtime := (if isConnected_api (realtime c) then disconnect_api (realtime c) else realtime c),
       conversation := clear (conversation c)\<rparr>"

text \<open>
  \<open>reset\<close>: disconnect, then the configuration is reset. The handlers it clears and
  registers again are the ones below; they are not part of the state.
\<close>

definition reset :: "RealtimeClient \<Rightarrow> RealtimeClient" where
  "reset c = resetConfig (disconnect c)"

text \<open>\<open>x !== void 0 && (this.sessionConfig.x = x)\<close>, for one field.\<close>

definition set_if_defined :: "'a option \<Rightarrow> 'a option \<Rightarrow> 'a option" where
  "set_if_defined new old = (case new of None \<Rightarrow> old | Some v \<Rightarrow> Some v)"

text \<open>\<open>{type: 'function', ...toolDefinition}\<close>.\<close>

definition as_function :: "ToolDefinitionType \<Rightarrow> ToolDefinitionType" where
  "as_function d =
     d\<lparr>tool_type := Some (case tool_type d of None \<Rightarrow> ''function'' | Some t \<Rightarrow> t)\<rparr>"

text \<open>
  The first \<open>map\<close> of \<open>updateSession\<close>, over the tools passed inline: it throws at the
  first one for whose name \<open>this.tools[name]\<close> is truthy.
\<close>

fun inline_tools :: "(string \<times> ToolConfig) list \<Rightarrow> ToolDefinitionType list \<Rightarrow> error + ToolDefinitionType list" where
  "inline_tools reg [] = Inr []"
| \<open>inline_tools reg (toolDefinition # rest) =
     (let d = as_function toolDefinition
      in if get_property reg (name d) \<noteq> Undefined
         then Inl (Error (''Tool "'' @ name d @ ''" has already been defined''))
         else (case inline_tools reg rest of
                 Inl e \<Rightarrow> Inl e
               | Inr ds \<Rightarrow> Inr (d # ds)))\<close>

text \<open>The second \<open>map\<close>, over \<open>Object.keys(this.tools)\<close>.\<close>

definition registered_tools :: "(string \<times> ToolConfig) list \<Rightarrow> ToolDefinitionType list" where
  "registered_tools reg = map (\<lambda>(key, cfg). as_function (tool_definition cfg)) (own_entries reg)"

text \<open>The argument \<open>{}\<close>: every field unset.\<close>

definition no_session :: SessionResourceType where
  "no_session =
     \<lparr>model = None, modalities = None, instructions = None, voice = None,
      input_audio_format = None, output_audio_format = None,
      input_audio_transcription = None, turn_detection = None, session_tools = None,
      tool_choice = None, temperature = None, max_response_output_tokens = None\<rparr>"

definition updateSession :: "RealtimeClient \<Rightarrow> SessionResourceType \<Rightarrow> bool outcome" where
  "updateSession c p =
     (let cfg = (sessionConfig c)
            \<lparr>modalities := set_if_defined (modalities p) (modalities (sessionConfig c)),
             instructions := set_if_defined (instructions p) (instructions (sessionConfig c)),
             voice := set_if_defined (voice p) (voice (sessionConfig c)),
             input_audio_format :=
               set_if_defined (input_audio_format p) (input_audio_format (sessionConfig c)),
             output_audio_format :=
               set_if_defined (output_audio_format p) (output_audio_format (sessionConfig c)),
             input_audio_transcription :=
               set_if_defined (input_audio_transcription p)
                 (input_audio_transcription (sessionConfig c)),
             turn_detection := set_if_defined (turn_detection p) (turn_detection (sessionConfig c)),
             session_tools := set_if_defined (session_tools p) (session_tools (sessionConfig c)),
             tool_choice := set_if_defined (tool_choice p) (tool_choice (sessionConfig c)),
             temperature := set_if_defined (temperature p) (temperature (sessionConfig c)),
             max_response_output_tokens :=
               set_if_defined (max_response_output_tokens p)
                 (max_response_output_tokens (sessionConfig c))\<rparr>;
          c1 = c\<lparr>sessionConfig := cfg\<rparr>
      in case inline_tools (tools c1) (case session_tools p of None \<Rightarrow> [] | Some ts \<Rightarrow> ts) of
           Inl e \<Rightarrow> (Inl e, c1)
         | Inr inline \<Rightarrow>
             (let useTools = inline @ registered_tools (tools c1);
                  session = cfg\<lparr>session_tools := Some useTools\<rparr>
              in if isConnected_api (realtime c1) then
                   (case send (realtime c1) ''session.update'' (SessionData session) of
                      Inl e \<Rightarrow> (Inl e, c1)
                    | Inr r \<Rightarrow> (Inr True, c1\<lparr>realtime := r\<rparr>))
                 else (Inr True, c1)))"

text \<open>
  \<open>connect\<close>. Opening the connection is the transport's work and is taken to succeed.
\<close>

definition connect :: "RealtimeClient \<Rightarrow> bool outcome" where
  "connect c =
     (if isConnected c then (Inl (Error ''Already connected, use .disconnect() first''), c)
      else updateSession (c\<lparr>realtime := connect_api (realtime c)\<rparr>) no_session)"

text \<open>
  \<open>addTool\<close>. The definition may be missing altogether (\<open>definition?.name\<close>); an empty
  name is falsy like a missing one. The new property is created last; the value returned is
  \<open>this.tools[name]\<close>, read back.
\<close>

definition addTool :: "RealtimeClient \<Rightarrow> ToolDefinitionType option \<Rightarrow> handler_arg \<Rightarrow> ToolConfig option outcome" where
  \<open>addTool c defn h =
     (case defn of
        None \<Rightarrow> (Inl (Error ''Missing tool name in definition''), c)
      | Some d \<Rightarrow>
          if name d = [] then (Inl (Error ''Missing tool name in definition''), c)
          else if get_property (tools c) (name d) \<noteq> Undefined then
            (Inl (Error (''Tool "'' @ name d @ ''" already added. Please use .removeTool("''
                         @ name d @ ''") before trying to add again.'')), c)
          else
            (case h of
               NotAFunction \<Rightarrow>
                 (Inl (Error (''Tool "'' @ name d @ ''" handler must be a function'')), c)
             | Function f \<Rightarrow>
                 (let c1 = c\<lparr>tools := tools c @ [(name d, \<lparr>tool_definition = d, handler = f\<rparr>)]\<rparr>
                  in case updateSession c1 no_session of
                       (Inl e, c2) \<Rightarrow> (Inl e, c2)
                     | (Inr _, c2) \<Rightarrow> (Inr (map_of (tools c2) (name d)), c2))))\<close>

definition removeTool :: "RealtimeClient \<Rightarrow> string \<Rightarrow> bool outcome" where
  \<open>removeTool c n =
     (if get_property (tools c) n = Undefined then
        (Inl (Error (''Tool "'' @ n @ ''" does not exist, can not be removed.'')), c)
      else (Inr True, c\<lparr>tools := delete_property (tools c) n\<rparr>))\<close>

definition deleteItem :: "RealtimeClient \<Rightarrow> string \<Rightarrow> bool outcome" where
  "deleteItem c i =
     (case send (realtime c) ''conversation.item.delete'' (ItemIdData i) of
        Inl e \<Rightarrow> (Inl e, c)
      | Inr r \<Rightarrow> (Inr True, c\<lparr>realtime := r\<rparr>))"

text \<open>
  The loop of \<open>sendUserMessageContent\<close> over one content part. The codec
  \<open>arrayBufferToBase64\<close> is not among the sources and is a parameter.
\<close>

fun encode_part :: "(raw_audio \<Rightarrow> string) \<Rightarrow> user_content \<Rightarrow> user_content" where
  "encode_part arrayBufferToBase64 (InputAudioContent (Some (Raw a)) t) =
     InputAudioContent (Some (Encoded (arrayBufferToBase64 a))) t"
| "encode_part arrayBufferToBase64 c = c"

definition sendUserMessageContent :: "(raw_audio \<Rightarrow> string) \<Rightarrow> RealtimeClient \<Rightarrow> user_content list \<Rightarrow> bool outcome" where
  "sendUserMessageContent arrayBufferToBase64 c contents =
     (if length contents \<noteq> 0 then
        (case send (realtime c) ''conversation.item.create''
                (ItemData (UserMessage (map (encode_part arrayBufferToBase64) contents))) of
           Inl e \<Rightarrow> (Inl e, c)
         | Inr r \<Rightarrow> createResponse (c\<lparr>realtime := r\<rparr>))
      else createResponse c)"

text \<open>
  Modelled from the spec: \<open>mergeInt16Arrays\<close> is the concatenation of two sample
  sequences into one.
\<close>

definition mergeInt16Arrays :: "16 word list \<Rightarrow> 16 word list \<Rightarrow> 16 word list" where
  "mergeInt16Arrays left right = left @ right"

text \<open>
  \<open>appendInputAudio\<close>. The argument is the sample sequence; an \<open>ArrayBuffer\<close> is
  represented by the samples it holds.
\<close>

definition appendInputAudio :: "(raw_audio \<Rightarrow> string) \<Rightarrow> RealtimeClient \<Rightarrow> 16 word list \<Rightarrow> bool outcome" where
  "appendInputAudio arrayBufferToBase64 c arrayBuffer =
     (if byteLength arrayBuffer > 0 then
        (case send (realtime c) ''input_audio_buffer.append''
                (AudioData (arrayBufferToBase64 (Int16Array arrayBuffer))) of
           Inl e \<Rightarrow> (Inl e, c)
         | Inr r \<Rightarrow>
             (Inr True,
              c\<lparr>realtime := r,
                inputAudioBuffer := mergeInt16Arrays (inputAudioBuffer c) arrayBuffer\<rparr>))
      else (Inr True, c))"

text \<open>\<open>Array.prototype.findIndex\<close>: the first index that satisfies, or \<open>-1\<close>.\<close>

fun findIndex :: "('a \<Rightarrow> bool) \<Rightarrow> 'a list \<Rightarrow> int" where
  "findIndex P [] = - 1"
| "findIndex P (x # xs) =
     (if P x then 0 else (let r = findIndex P xs in if r = - 1 then - 1 else r + 1))"

text \<open>
  \<open>cancelResponse\<close>. The id is \<open>None\<close> when the argument is omitted; the empty string is
  falsy too. The frequency is a constant of the conversation, a natural number that a
  double represents; the sample count is any number.
\<close>

definition cancelResponse :: "RealtimeClient \<Rightarrow> string option \<Rightarrow> js_number \<Rightarrow> ItemType option outcome" where
  \<open>cancelResponse c i sampleCount =
     (if i = None \<or> i = Some [] then
        (case send (realtime c) ''response.cancel'' NoData of
           Inl e \<Rightarrow> (Inl e, c)
         | Inr r \<Rightarrow> (Inr None, c\<lparr>realtime := r\<rparr>))
      else
        (case i of
           None \<Rightarrow> (Inr None, c)
         | Some ident \<Rightarrow>
        (case getItem (conversation c) ident of
           None \<Rightarrow> (Inl (Error (''Could not find item "'' @ ident @ ''"'')), c)
         | Some item \<Rightarrow>
             if item_type item \<noteq> Message then
               (Inl (Error ''Can only cancelResponse messages with type "message"''), c)
             else if role item \<noteq> Some Assistant then
               (Inl (Error ''Can only cancelResponse messages with role "assistant"''), c)
             else
               (case send (realtime c) ''response.cancel'' NoData of
                  Inl e \<Rightarrow> (Inl e, c)
                | Inr r1 \<Rightarrow>
                    (let c1 = c\<lparr>realtime := r1\<rparr>;
                         audioIndex = findIndex (\<lambda>p. content_type p = Audio) (content item)
                     in if audioIndex = - 1 then
                          (Inl (Error ''Could not find audio on item to cancel''), c1)
                        else
                          (case send (realtime c1) ''conversation.item.truncate''
                                  (TruncateData ident audioIndex
                                     (Math_floor
                                        (js_times
                                           (js_divide sampleCount
                                              (Finite (of_nat (defaultFrequency (conversation c)))))
                                           (Finite 1000)))) of
                             Inl e \<Rightarrow> (Inl e, c1)
                           | Inr r2 \<Rightarrow> (Inr (Some item), c1\<lparr>realtime := r2\<rparr>)))))))\<close>

subsection \<open>The handlers of server events\<close>

text \<open>
  Modelled from the spec: \<open>dispatch\<close> of the event bus delivers an announcement, in
  order, to the application's handlers. The model records the announcements of the
  conversation; the relay of every transport event as a timestamped \<open>realtime.event\<close> is
  left out.
\<close>

definition dispatch :: "RealtimeClient \<Rightarrow> string \<Rightarrow> dispatch_payload \<Rightarrow> RealtimeClient" where
  "dispatch c eventName p = c\<lparr>dispatched := dispatched c @ [(eventName, p)]\<rparr>"

text \<open>
  The assembler's \<open>processEvent\<close> is not among the sources: it is a parameter, a function
  of the event, the extra argument and the conversation that throws or returns the item,
  the delta and the conversation afterwards.
\<close>

type_synonym 'ev processor =
  "'ev \<Rightarrow> 16 word list option \<Rightarrow> RealtimeConversation
     \<Rightarrow> error + (ItemType option \<times> json option) \<times> RealtimeConversation"

definition handler_ev :: "'ev processor \<Rightarrow> RealtimeClient \<Rightarrow> 'ev \<Rightarrow> 16 word list option \<Rightarrow> (ItemType option \<times> json option) outcome" where
  "handler_ev processEvent c event args =
     (case processEvent event args (conversation c) of
        Inl e \<Rightarrow> (Inl e, c)
      | Inr (res, conv) \<Rightarrow> (Inr res, c\<lparr>conversation := conv\<rparr>))"

definition handlerWithDispatch :: "'ev processor \<Rightarrow> RealtimeClient \<Rightarrow> 'ev \<Rightarrow> (ItemType option \<times> json option) outcome" where
  "handlerWithDispatch processEvent c event =
     (case handler_ev processEvent c event None of
        (Inl e, c1) \<Rightarrow> (Inl e, c1)
      | (Inr (item, delta), c1) \<Rightarrow>
          (case item of
             None \<Rightarrow> (Inr (item, delta), c1)
           | Some it \<Rightarrow> (Inr (item, delta), dispatch c1 ''conversation.updated'' (ItemDelta it delta))))"

text \<open>
  \<open>callTool\<close>. \<open>JSON.parse\<close> and \<open>JSON.stringify\<close> are parameters. The \<open>try\<close> block is
  \<open>attempt\<close>: whatever it throws, the failing \<open>send\<close> included, reaches the \<open>catch\<close>
  block. What \<open>this.tools[tool.name]\<close> inherits has no \<open>handler\<close>, so calling it is a type
  error, whose text is a placeholder. A result that is \<open>undefined\<close> serializes to
  \<open>undefined\<close>, an absent output. The \<open>catch\<close> block builds the error payload, which may
  throw itself, and sends it; \<open>createResponse\<close> follows either block that completes.
\<close>

definition callTool :: "(string \<Rightarrow> error + json) \<Rightarrow> (json \<Rightarrow> string) \<Rightarrow> RealtimeClient \<Rightarrow> FormattedToolType \<Rightarrow> bool outcome" where
  \<open>callTool JSON_parse JSON_stringify c t =
     (let attempt =
            (case JSON_parse (arguments t) of
               Inl e \<Rightarrow> Inl e
             | Inr jsonArguments \<Rightarrow>
                 (case get_property (tools c) (tool_name t) of
                    Undefined \<Rightarrow> Inl (Error (''Tool "'' @ tool_name t @ ''" has not been added''))
                  | Inherited \<Rightarrow> Inl (TypeError ''toolConfig.handler is not a function'')
                  | Own toolConfig \<Rightarrow>
                      (case handler toolConfig jsonArguments of
                         Inl e \<Rightarrow> Inl e
                       | Inr result \<Rightarrow>
                           send (realtime c) ''conversation.item.create''
                             (ItemData (FunctionCallOutputItem (call_id t)
                                (map_option JSON_stringify result))))))
      in case attempt of
           Inr r \<Rightarrow> createResponse (c\<lparr>realtime := r\<rparr>)
         | Inl e \<Rightarrow>
             (case error_payload e of
                Inl e1 \<Rightarrow> (Inl e1, c)
              | Inr p \<Rightarrow>
                  (case send (realtime c) ''conversation.item.create''
                          (ItemData (FunctionCallOutputItem (call_id t) (Some (JSON_stringify p)))) of
                     Inl e2 \<Rightarrow> (Inl e2, c)
                   | Inr r \<Rightarrow> createResponse (c\<lparr>realtime := r\<rparr>))))\<close>

text \<open>
  What the \<open>try\<close> block of \<open>callTool\<close> reaches before its \<open>send\<close>: the result of the
  handler, or what was thrown on the way.
\<close>

definition tool_outcome :: "(string \<Rightarrow> error + json) \<Rightarrow> RealtimeClient \<Rightarrow> FormattedToolType \<Rightarrow> error + json option" where
  \<open>tool_outcome JSON_parse c t =
     (case JSON_parse (arguments t) of
        Inl e \<Rightarrow> Inl e
      | Inr jsonArguments \<Rightarrow>
          (case get_property (tools c) (tool_name t) of
             Undefined \<Rightarrow> Inl (Error (''Tool "'' @ tool_name t @ ''" has not been added''))
           | Inherited \<Rightarrow> Inl (TypeError ''toolConfig.handler is not a function'')
           | Own toolConfig \<Rightarrow> handler toolConfig jsonArguments))\<close>

text \<open>
  The handler of \<open>server.response.output_item.done\<close>. Reading \<open>item.status\<close> of a null
  item is a type error, whose text is a placeholder. The tool call is part of the step.
\<close>

definition on_response_output_item_done :: "'ev processor \<Rightarrow> (string \<Rightarrow> error + json) \<Rightarrow> (json \<Rightarrow> string) \<Rightarrow> RealtimeClient \<Rightarrow> 'ev \<Rightarrow> bool outcome" where
  "on_response_output_item_done processEvent JSON_parse JSON_stringify c event =
     (case handlerWithDispatch processEvent c event of
        (Inl e, c1) \<Rightarrow> (Inl e, c1)
      | (Inr (None, delta), c1) \<Rightarrow> (Inl (TypeError ''item is null''), c1)
      | (Inr (Some item, delta), c1) \<Rightarrow>
          (let c2 = (if status item = Some completed
                     then dispatch c1 ''conversation.item.completed'' (ItemOnly (Some item))
                     else c1)
           in case tool (formatted item) of
                None \<Rightarrow> (Inr True, c2)
              | Some t \<Rightarrow> callTool JSON_parse JSON_stringify c2 t))"

text \<open>The handler of \<open>server.conversation.item.created\<close>.\<close>

definition on_conversation_item_created :: "'ev processor \<Rightarrow> RealtimeClient \<Rightarrow> 'ev \<Rightarrow> bool outcome" where
  "on_conversation_item_created processEvent c event =
     (case handlerWithDispatch processEvent c event of
        (Inl e, c1) \<Rightarrow> (Inl e, c1)
      | (Inr (item, delta), c1) \<Rightarrow>
          (let c2 = dispatch c1 ''conversation.item.appended'' (ItemOnly item)
           in case item of
                None \<Rightarrow> (Inl (TypeError ''item is null''), c2)
              | Some it \<Rightarrow>
                  (if status it = Some completed
                   then (Inr True, dispatch c2 ''conversation.item.completed'' (ItemOnly (Some it)))
                   else (Inr True, c2))))"

text \<open>The handlers of \<open>server.input_audio_buffer.speech_started\<close> and \<open>speech_stopped\<close>.\<close>

definition on_speech_started :: "'ev processor \<Rightarrow> RealtimeClient \<Rightarrow> 'ev \<Rightarrow> bool outcome" where
  "on_speech_started processEvent c event =
     (case handler_ev processEvent c event None of
        (Inl e, c1) \<Rightarrow> (Inl e, c1)
      | (Inr res, c1) \<Rightarrow> (Inr True, dispatch c1 ''conversation.interrupted'' NoPayload))"

definition on_speech_stopped :: "'ev processor \<Rightarrow> RealtimeClient \<Rightarrow> 'ev \<Rightarrow> (ItemType option \<times> json option) outcome" where
  "on_speech_stopped processEvent c event =
     handler_ev processEvent c event (Some (inputAudioBuffer c))"

text \<open>The handler of \<open>server.session.created\<close>.\<close>

definition on_session_created :: "RealtimeClient \<Rightarrow> RealtimeClient" where
  "on_session_created c = c\<lparr>sessionCreated := True\<rparr>"

subsection \<open>Every step of the client\<close>

text \<open>
  One constructor for each public method and each registered handler; \<open>exec\<close> runs the
  step and keeps the client afterwards. The parameters are bundled as the environment.
\<close>

record 'ev environment =
  arrayBufferToBase64 :: "raw_audio \<Rightarrow> string"
  JSON_parse :: "string \<Rightarrow> error + json"
  JSON_stringify :: "json \<Rightarrow> string"
  processEvent :: "'ev processor"

datatype 'ev operation =
    OpResetConfig
  | OpReset
  | OpConnect
  | OpDisconnect
  | OpAddTool "ToolDefinitionType option" handler_arg
  | OpRemoveTool string
  | OpDeleteItem string
  | OpUpdateSession SessionResourceType
  | OpSendUserMessageContent "user_content list"
  | OpAppendInputAudio "16 word list"
  | OpCreateResponse
  | OpCancelResponse "string option" js_number
  | OnSessionCreated
  | OnHandler 'ev
  | OnHandlerWithDispatch 'ev
  | OnSpeechStarted 'ev
  | OnSpeechStopped 'ev
  | OnConversationItemCreated 'ev
  | OnResponseOutputItemDone 'ev

fun exec :: "'ev environment \<Rightarrow> RealtimeClient \<Rightarrow> 'ev operation \<Rightarrow> RealtimeClient" where
  "exec env c OpResetConfig = resetConfig c"
| "exec env c OpReset = reset c"
| "exec env c OpConnect = snd (connect c)"
| "exec env c OpDisconnect = disconnect c"
| "exec env c (OpAddTool d h) = snd (addTool c d h)"
| "exec env c (OpRemoveTool n) = snd (removeTool c n)"
| "exec env c (OpDeleteItem i) = snd (deleteItem c i)"
| "exec env c (OpUpdateSession p) = snd (updateSession c p)"
| "exec env c (OpSendUserMessageContent cs) =
     snd (sendUserMessageContent (arrayBufferToBase64 env) c cs)"
| "exec env c (OpAppendInputAudio b) = snd (appendInputAudio (arrayBufferToBase64 env) c b)"
| "exec env c OpCreateResponse = snd (createResponse c)"
| "exec env c (OpCancelResponse i n) = snd (cancelResponse c i n)"
| "exec env c OnSessionCreated = on_session_created c"
| "exec env c (OnHandler ev) = snd (handler_ev (processEvent env) c ev None)"
| "exec env c (OnHandlerWithDispatch ev) = snd (handlerWithDispatch (processEvent env) c ev)"
| "exec env c (OnSpeechStarted ev) = snd (on_speech_started (processEvent env) c ev)"
| "exec env c (OnSpeechStopped ev) = snd (on_speech_stopped (processEvent env) c ev)"
| "exec env c (OnConversationItemCreated ev) =
     snd (on_conversation_item_created (processEvent env) c ev)"
| "exec env c (OnResponseOutputItemDone ev) =
     snd (on_response_output_item_done (processEvent env) (JSON_parse env) (JSON_stringify env) c ev)"

text \<open>The commands sent by a step: what the outbox gained.\<close>

definition sent_by :: "RealtimeClient \<Rightarrow> RealtimeClient \<Rightarrow> command list" where
  "sent_by c c' = drop (length (outbox (realtime c))) (outbox (realtime c'))"

definition named :: "string \<Rightarrow> command list \<Rightarrow> command list" where
  "named n cmds = filter (\<lambda>cmd. fst cmd = n) cmds"

subsection \<open>Example states\<close>

text \<open>
  The default session configuration, as the constructor writes it, and the client the
  constructor builds; the frequency of its conversation is the assembler's constant.
\<close>

definition default_session :: SessionResourceType where
  "default_session =
     \<lparr>model = None,
      modalities = Some [''text'', ''audio''],
      instructions = Some [],
      voice = Some alloy,
      input_audio_format = Some pcm16,
      output_audio_format = Some pcm16,
      input_audio_transcription = Some None,
      turn_detection = Some None,
      session_tools = Some [],
      tool_choice = Some ToolChoiceAuto,
      temperature = Some (4 / 5),
      max_response_output_tokens = Some (Tokens 4096)\<rparr>"

definition new_client :: "nat \<Rightarrow> RealtimeClient" where
  "new_client frequency =
     resetConfig
       \<lparr>defaultSessionConfig = default_session,
        sessionConfig = no_session,
        realtime = \<lparr>connected = False, outbox = []\<rparr>,
        conversation = \<lparr>defaultFrequency = frequency, items = [], queuedInputAudio = []\<rparr>,
        sessionCreated = False,
        tools = [],
        inputAudioBuffer = [],
        dispatched = []\<rparr>"

text \<open>A connected client, and one with three samples staged.\<close>

definition online_client :: RealtimeClient where
  "online_client = (new_client 24000)\<lparr>realtime := \<lparr>connected = True, outbox = []\<rparr>\<rparr>"

definition staged_client :: RealtimeClient where
  "staged_client = online_client\<lparr>inputAudioBuffer := [1, 2, 3]\<rparr>"

text \<open>
  A conversation of four items: a user message, a function call, an assistant message
  without audio, and an assistant message whose second content part is audio.
\<close>

definition audio_part :: ContentType where
  "audio_part = \<lparr>content_type = Audio, content_text = None, content_audio = Some [],
                  content_transcript = Some ''hello''\<rparr>"

definition text_part :: ContentType where
  "text_part = \<lparr>content_type = Text, content_text = Some ''hello'', content_audio = None,
                 content_transcript = None\<rparr>"

definition no_formatted :: FormattedPropertyType where
  "no_formatted = \<lparr>formatted_audio = None, formatted_text = None, formatted_transcript = None,
                    tool = None, formatted_output = None\<rparr>"

definition assistant_item :: ItemType where
  "assistant_item =
     \<lparr>item_id = ''x'', item_type = Message, role = Some Assistant, status = Some in_progress,
      content = [text_part, audio_part], formatted = no_formatted\<rparr>"

definition silent_item :: ItemType where
  "silent_item = assistant_item\<lparr>item_id := ''s'', content := [text_part]\<rparr>"

definition user_item :: ItemType where
  "user_item = assistant_item\<lparr>item_id := ''u'', role := Some User, content := []\<rparr>"

definition call_item :: ItemType where
  "call_item = assistant_item\<lparr>item_id := ''f'', item_type := FunctionCall, role := None,
                               content := []\<rparr>"

definition talking_client :: RealtimeClient where
  "talking_client =
     online_client\<lparr>conversation :=
       \<lparr>defaultFrequency = 24000,
        items = [user_item, call_item, silent_item, assistant_item],
        queuedInputAudio = []\<rparr>\<rparr>"

text \<open>A tool, its handler, and a client that has it registered.\<close>

definition weather_definition :: ToolDefinitionType where
  "weather_definition =
     \<lparr>tool_type = None, name = ''get_weather'', description = ''Weather at a place'',
      parameters = JObj []\<rparr>"

definition weather_handler :: "json \<Rightarrow> error + json option" where
  "weather_handler args =
     (case args of
        JObj [(k, JNum n)] \<Rightarrow> Inr (Some (JNum (n + 1)))
      | _ \<Rightarrow> Inl (Error ''bad arguments''))"

definition tooled_client :: RealtimeClient where
  "tooled_client =
     staged_client\<lparr>tools := [(''get_weather'',
        \<lparr>tool_definition = weather_definition, handler = weather_handler\<rparr>)]\<rparr>"

text \<open>A tool named like a method of every object, and a registry created in the order 2, 1.\<close>

definition toString_definition :: ToolDefinitionType where
  "toString_definition = weather_definition\<lparr>name := ''toString''\<rparr>"

definition numbered_client :: RealtimeClient where
  "numbered_client =
     online_client\<lparr>tools :=
       [(''2'', \<lparr>tool_definition = weather_definition\<lparr>name := ''2''\<rparr>, handler = weather_handler\<rparr>),
        (''1'', \<lparr>tool_definition = weather_definition\<lparr>name := ''1''\<rparr>, handler = weather_handler\<rparr>)]\<rparr>"

text \<open>A partial configuration that sets the model, the voice and one inline tool.\<close>

definition echo_update :: SessionResourceType where
  "echo_update = no_session\<lparr>model := Some ''other'', voice := Some echo,
                              session_tools := Some [weather_definition]\<rparr>"

text \<open>A second tool, and a partial configuration that passes it inline.\<close>

definition lookup_definition :: ToolDefinitionType where
  "lookup_definition = weather_definition\<lparr>name := ''lookup''\<rparr>"

definition lookup_update :: SessionResourceType where
  "lookup_update = no_session\<lparr>session_tools := Some [lookup_definition]\<rparr>"

text \<open>
  A stand-in for the codec (two letters a sample, one a byte), and a content list with a
  text part, a raw audio part and an encoded audio part.
\<close>

definition example_base64 :: "raw_audio \<Rightarrow> string" where
  "example_base64 a =
     (case a of
        ArrayBuffer bs \<Rightarrow> map (\<lambda>b. CHR ''B'') bs
      | Int16Array xs \<Rightarrow> concat (map (\<lambda>x. ''AA'') xs))"

definition example_content :: "user_content list" where
  "example_content =
     [InputTextContent ''hi'',
      InputAudioContent (Some (Raw (Int16Array [1, 2]))) None,
      InputAudioContent (Some (Encoded ''AAEC'')) None]"

text \<open>
  Stand-ins for \<open>JSON.parse\<close> and \<open>JSON.stringify\<close> on the few values of the examples, a
  completed function call of the registered tool, and an assembler that returns the item
  its event carries.
\<close>

definition example_parse :: "string \<Rightarrow> error + json" where
  \<open>example_parse s =
     (if s = ''{"a":1}'' then Inr (JObj [(''a'', JNum 1)])
      else Inl (Error ''Unexpected end of JSON input''))\<close>

fun example_stringify :: "json \<Rightarrow> string" where
  \<open>example_stringify (JObj [(k, JStr v)]) = ''{"'' @ k @ ''":"'' @ v @ ''"}''\<close>
| \<open>example_stringify (JNum n) = (if n = 2 then ''2'' else ''0'')\<close>
| \<open>example_stringify j = ''null''\<close>

definition weather_call :: FormattedToolType where
  \<open>weather_call =
     \<lparr>formatted_tool_type = ''function'', tool_name = ''get_weather'', call_id = ''call_1'',
      arguments = ''{"a":1}''\<rparr>\<close>

definition weather_call_item :: ItemType where
  "weather_call_item =
     \<lparr>item_id = ''f1'', item_type = FunctionCall, role = None, status = Some completed,
      content = [], formatted = no_formatted\<lparr>tool := Some weather_call\<rparr>\<rparr>"

definition example_processEvent :: "ItemType option processor" where
  "example_processEvent event args conv = Inr ((event, None), conv)"

text \<open>
  A handler whose promise is rejected with no reason, as \<open>Promise.reject()\<close> does, and a
  client that has it registered.
\<close>

definition rejecting_handler :: "json \<Rightarrow> error + json option" where
  "rejecting_handler args = Inl ThrownNullish"

definition rejecting_client :: RealtimeClient where
  "rejecting_client =
     staged_client\<lparr>tools := [(''get_weather'',
        \<lparr>tool_definition = weather_definition, handler = rejecting_handler\<rparr>)]\<rparr>"

text \<open>An environment made of the stand-ins.\<close>

definition example_env :: "ItemType option environment" where
  "example_env =
     \<lparr>arrayBufferToBase64 = example_base64, JSON_parse = example_parse,
      JSON_stringify = example_stringify, processEvent = example_processEvent\<rparr>"

text \<open>
  What a step does to the input audio buffer when it neither resets nor appends: the outbox
  only grows, and the buffer is emptied if the step sent a commit and kept otherwise.
\<close>

definition kept_or_committed :: "RealtimeClient \<Rightarrow> RealtimeClient \<Rightarrow> bool" where
  "kept_or_committed c c' \<longleftrightarrow>
     outbox (realtime c') = outbox (realtime c) @ sent_by c c'
     \<and> (if ''input_audio_buffer.commit'' \<in> fst ` set (sent_by c c')
        then inputAudioBuffer c' = []
        else inputAudioBuffer c' = inputAudioBuffer c)"

section \<open>Properties\<close>

lemma send_connected:
  "connected r \<Longrightarrow> send r n d = Inr (r\<lparr>outbox := outbox r @ [(n, d)]\<rparr>)"
  by (simp add: send_def isConnected_api_def)

lemma send_not_connected:
  "\<not> connected r \<Longrightarrow> send r n d = Inl (Error ''RealtimeAPI is not connected'')"
  by (simp add: send_def isConnected_api_def)

subsection \<open>Committing staged audio and requesting a response\<close>

text \<open>
  C1, as stated, fails on a client whose transport is not connected: there \<open>send\<close> throws,
  so \<open>createResponse\<close> does not return true and no \<open>response.create\<close> is sent.
\<close>

theorem createResponse_not_connected_counterexample:
  "\<not> isConnected (new_client 24000)
   \<and> fst (createResponse (new_client 24000)) \<noteq> Inr True
   \<and> named ''response.create''
        (sent_by (new_client 24000) (snd (createResponse (new_client 24000)))) = []"
  by (simp add: new_client_def resetConfig_def isConnected_def isConnected_api_def
      createResponse_def send_def byteLength_def sent_by_def named_def)

text \<open>
  C1, amended. For every state of a client whose transport is connected, \<open>createResponse\<close>
  returns true and sends exactly one \<open>response.create\<close>. When no turn detection is active
  and the input audio buffer is non-empty, the commands sent are one
  \<open>input_audio_buffer.commit\<close> and then the \<open>response.create\<close>, the buffered samples are
  appended to the conversation's queued input audio, and the buffer is empty afterwards.
  Otherwise the \<open>response.create\<close> is the only command, and neither the conversation nor
  the buffer changes.
\<close>

theorem createResponse_commit_then_create:
  assumes "isConnected c"
  shows "fst (createResponse c) = Inr True
    \<and> outbox (realtime (snd (createResponse c)))
        = outbox (realtime c) @ sent_by c (snd (createResponse c))
    \<and> length (named ''response.create'' (sent_by c (snd (createResponse c)))) = 1
    \<and> (getTurnDetectionType c = None \<and> inputAudioBuffer c \<noteq> [] \<longrightarrow>
          sent_by c (snd (createResponse c))
            = [(''input_audio_buffer.commit'', NoData), (''response.create'', NoData)]
        \<and> queuedInputAudio (conversation (snd (createResponse c)))
            = queuedInputAudio (conversation c) @ [inputAudioBuffer c]
        \<and> inputAudioBuffer (snd (createResponse c)) = [])
    \<and> (getTurnDetectionType c \<noteq> None \<or> inputAudioBuffer c = [] \<longrightarrow>
          sent_by c (snd (createResponse c)) = [(''response.create'', NoData)]
        \<and> conversation (snd (createResponse c)) = conversation c
        \<and> inputAudioBuffer (snd (createResponse c)) = inputAudioBuffer c)"
  using assms
  by (auto simp: createResponse_def isConnected_def isConnected_api_def send_def sent_by_def
      named_def byteLength_def queueInputAudio_def Let_def)

theorem createResponse_commit_then_create_witness:
  "isConnected staged_client
   \<and> getTurnDetectionType staged_client = None
   \<and> inputAudioBuffer staged_client \<noteq> []
   \<and> fst (createResponse staged_client) = Inr True
   \<and> sent_by staged_client (snd (createResponse staged_client))
       = [(''input_audio_buffer.commit'', NoData), (''response.create'', NoData)]
   \<and> queuedInputAudio (conversation (snd (createResponse staged_client))) = [[1, 2, 3]]
   \<and> inputAudioBuffer (snd (createResponse staged_client)) = []"
  using createResponse_commit_then_create [of staged_client]
  by (simp add: staged_client_def online_client_def new_client_def resetConfig_def
      default_session_def isConnected_def isConnected_api_def getTurnDetectionType_def)

subsection \<open>Cancelling a response\<close>

lemma findIndex_ge: "- 1 \<le> findIndex P xs"
  by (induction xs) (auto simp: Let_def)

lemma findIndex_none: "findIndex P xs = - 1 \<longleftrightarrow> (\<forall>x\<in>set xs. \<not> P x)"
proof (induction xs)
  case Nil
  then show ?case by simp
next
  case (Cons x xs)
  have "- 1 \<le> findIndex P xs" by (rule findIndex_ge)
  with Cons show ?case by (auto simp: Let_def)
qed

lemma findIndex_first:
  assumes "\<exists>x\<in>set xs. P x"
  shows "0 \<le> findIndex P xs \<and> nat (findIndex P xs) < length xs
         \<and> P (xs ! nat (findIndex P xs))
         \<and> (\<forall>j < nat (findIndex P xs). \<not> P (xs ! j))"
  using assms
proof (induction xs)
  case Nil
  then show ?case by simp
next
  case (Cons x xs)
  show ?case
  proof (cases "P x")
    case True
    then show ?thesis by simp
  next
    case False
    with Cons.prems have ex: "\<exists>y\<in>set xs. P y" by auto
    from Cons.IH [OF ex] have ih: "0 \<le> findIndex P xs" "nat (findIndex P xs) < length xs"
      "P (xs ! nat (findIndex P xs))" "\<forall>j < nat (findIndex P xs). \<not> P (xs ! j)"
      by auto
    from ih(1) have r: "findIndex P (x # xs) = findIndex P xs + 1"
      using False by (simp add: Let_def)
    have n: "nat (findIndex P xs + 1) = Suc (nat (findIndex P xs))"
      using ih(1) by simp
    show ?thesis
      unfolding r n using ih False
      by (auto simp: less_Suc_eq_0_disj)
  qed
qed

lemma audio_end_ms_48000:
  "Math_floor (js_times (js_divide (Finite 48000) (Finite 24000)) (Finite 1000)) = Finite 2000"
  by code_simp

lemma audio_end_ms_24024:
  "Math_floor (js_times (js_divide (Finite 24024) (Finite 24000)) (Finite 1000)) = Finite 1000"
  by code_simp

lemma talking_client_facts:
  "isConnected talking_client"
  "realtime talking_client = \<lparr>connected = True, outbox = []\<rparr>"
  "defaultFrequency (conversation talking_client) = 24000"
  "getItem (conversation talking_client) ''x'' = Some assistant_item"
  "getItem (conversation talking_client) ''s'' = Some silent_item"
  "getItem (conversation talking_client) ''u'' = Some user_item"
  "getItem (conversation talking_client) ''f'' = Some call_item"
  "getItem (conversation talking_client) ''zz'' = None"
  by (simp_all add: talking_client_def online_client_def isConnected_def isConnected_api_def
      getItem_def user_item_def call_item_def silent_item_def assistant_item_def)

text \<open>
  C2, as stated, fails on the code: the division and the multiplication each round to a
  double, so at 24024 samples and 24000 Hz the product is just below 1001 and the command
  carries 1000, where the floor of the exact value is 1001.
\<close>

theorem cancelResponse_audio_end_ms_counterexample:
  "sent_by talking_client (snd (cancelResponse talking_client (Some ''x'') (Finite 24024)))
     = [(''response.cancel'', NoData),
        (''conversation.item.truncate'', TruncateData ''x'' 1 (Finite 1000))]
   \<and> \<lfloor>(24024 :: rat) / 24000 * 1000\<rfloor> = 1001"
proof -
  have i: "findIndex (\<lambda>p. content_type p = Audio) (content assistant_item) = 1"
    by (simp add: assistant_item_def audio_part_def text_part_def)
  have t: "item_type assistant_item = Message" "role assistant_item = Some Assistant"
    by (simp_all add: assistant_item_def)
  show ?thesis
    by (simp add: cancelResponse_def send_def isConnected_api_def Let_def sent_by_def
        talking_client_facts i t audio_end_ms_24024
        del: js_divide.simps js_times.simps Math_floor.simps)
qed

text \<open>
  C2, amended. On a connected transport, for every non-empty id that names an existing item
  of type message with role assistant and at least one audio content part, and for every
  sample count, \<open>cancelResponse\<close> sends \<open>response.cancel\<close> and then
  \<open>conversation.item.truncate\<close>, whose content index is the index of the first audio part
  and whose \<open>audio_end_ms\<close> is \<open>Math.floor((sampleCount / frequency) * 1000)\<close> in double
  arithmetic, the quotient and the product each rounded to the nearest double; it returns
  the item looked up.
\<close>

theorem cancelResponse_cancel_then_truncate:
  assumes "isConnected c"
    and "ident \<noteq> []"
    and "getItem (conversation c) ident = Some item"
    and "item_type item = Message"
    and "role item = Some Assistant"
    and "\<exists>p\<in>set (content item). content_type p = Audio"
  shows "cancelResponse c (Some ident) sampleCount =
           (Inr (Some item),
            c\<lparr>realtime := (realtime c)\<lparr>outbox := outbox (realtime c) @
               [(''response.cancel'', NoData),
                (''conversation.item.truncate'',
                 TruncateData ident (findIndex (\<lambda>p. content_type p = Audio) (content item))
                   (Math_floor
                      (js_times
                         (js_divide sampleCount
                            (Finite (of_nat (defaultFrequency (conversation c)))))
                         (Finite 1000))))]\<rparr>\<rparr>)
         \<and> 0 \<le> findIndex (\<lambda>p. content_type p = Audio) (content item)
         \<and> nat (findIndex (\<lambda>p. content_type p = Audio) (content item)) < length (content item)
         \<and> content_type (content item ! nat (findIndex (\<lambda>p. content_type p = Audio) (content item))) = Audio
         \<and> (\<forall>j < nat (findIndex (\<lambda>p. content_type p = Audio) (content item)).
               content_type (content item ! j) \<noteq> Audio)"
proof -
  let ?i = "findIndex (\<lambda>p. content_type p = Audio) (content item)"
  from findIndex_first [of "content item" "\<lambda>p. content_type p = Audio", OF assms(6)]
  have first: "0 \<le> ?i" "nat ?i < length (content item)"
    "content_type (content item ! nat ?i) = Audio"
    "\<forall>j < nat ?i. content_type (content item ! j) \<noteq> Audio"
    by auto
  from first(1) have ne: "?i \<noteq> - 1" by simp
  have conn: "connected (realtime c)"
    using assms(1) by (simp add: isConnected_def isConnected_api_def)
  have "cancelResponse c (Some ident) sampleCount =
           (Inr (Some item),
            c\<lparr>realtime := (realtime c)\<lparr>outbox := outbox (realtime c) @
               [(''response.cancel'', NoData),
                (''conversation.item.truncate'',
                 TruncateData ident ?i
                   (Math_floor
                      (js_times
                         (js_divide sampleCount
                            (Finite (of_nat (defaultFrequency (conversation c)))))
                         (Finite 1000))))]\<rparr>\<rparr>)"
    using assms(2-5) ne conn
    by (simp add: cancelResponse_def send_def isConnected_api_def Let_def)
  with first show ?thesis by blast
qed

theorem cancelResponse_cancel_then_truncate_witness:
  "isConnected talking_client
   \<and> getItem (conversation talking_client) ''x'' = Some assistant_item
   \<and> item_type assistant_item = Message \<and> role assistant_item = Some Assistant
   \<and> content assistant_item = [text_part, audio_part] \<and> content_type audio_part = Audio
   \<and> fst (cancelResponse talking_client (Some ''x'') (Finite 48000)) = Inr (Some assistant_item)
   \<and> sent_by talking_client (snd (cancelResponse talking_client (Some ''x'') (Finite 48000)))
       = [(''response.cancel'', NoData),
          (''conversation.item.truncate'', TruncateData ''x'' 1 (Finite 2000))]
   \<and> sent_by talking_client (snd (cancelResponse talking_client (Some ''x'') (Finite 24024)))
       = [(''response.cancel'', NoData),
          (''conversation.item.truncate'', TruncateData ''x'' 1 (Finite 1000))]"
proof -
  have h4: "item_type assistant_item = Message" "role assistant_item = Some Assistant"
    by (simp_all add: assistant_item_def)
  have h6: "\<exists>p\<in>set (content assistant_item). content_type p = Audio"
    by (simp add: assistant_item_def audio_part_def)
  have i: "findIndex (\<lambda>p. content_type p = Audio) (content assistant_item) = 1"
    by (simp add: assistant_item_def audio_part_def text_part_def)
  have cnt: "content assistant_item = [text_part, audio_part]"
    "content_type audio_part = Audio"
    by (simp_all add: assistant_item_def audio_part_def)
  have e1: "cancelResponse talking_client (Some ''x'') (Finite 48000) =
      (Inr (Some assistant_item),
       talking_client\<lparr>realtime := \<lparr>connected = True, outbox =
         [(''response.cancel'', NoData),
          (''conversation.item.truncate'', TruncateData ''x'' 1 (Finite 2000))]\<rparr>\<rparr>)"
    using cancelResponse_cancel_then_truncate
        [OF talking_client_facts(1) _ talking_client_facts(4) h4 h6, of "Finite 48000"]
    by (simp add: talking_client_facts i audio_end_ms_48000
        del: js_divide.simps js_times.simps Math_floor.simps)
  have e2: "cancelResponse talking_client (Some ''x'') (Finite 24024) =
      (Inr (Some assistant_item),
       talking_client\<lparr>realtime := \<lparr>connected = True, outbox =
         [(''response.cancel'', NoData),
          (''conversation.item.truncate'', TruncateData ''x'' 1 (Finite 1000))]\<rparr>\<rparr>)"
    using cancelResponse_cancel_then_truncate
        [OF talking_client_facts(1) _ talking_client_facts(4) h4 h6, of "Finite 24024"]
    by (simp add: talking_client_facts i audio_end_ms_24024
        del: js_divide.simps js_times.simps Math_floor.simps)
  show ?thesis
    by (simp add: e1 e2 talking_client_facts h4 cnt sent_by_def)
qed

text \<open>
  C4. Called with no id (omitted or empty) on a connected transport, \<open>cancelResponse\<close>
  sends a bare \<open>response.cancel\<close> and returns a null item. Called with an id that names
  no item, an item that is not a message, or a message whose role is not assistant, it
  throws the error of that precondition and sends nothing, so no truncate command.
\<close>

theorem cancelResponse_preconditions:
  shows \<open>(isConnected c \<and> (i = None \<or> i = Some []) \<longrightarrow>
            cancelResponse c i sampleCount =
              (Inr None,
               c\<lparr>realtime := (realtime c)\<lparr>outbox := outbox (realtime c) @
                  [(''response.cancel'', NoData)]\<rparr>\<rparr>))
       \<and> (ident \<noteq> [] \<and> getItem (conversation c) ident = None \<longrightarrow>
            cancelResponse c (Some ident) sampleCount =
              (Inl (Error (''Could not find item "'' @ ident @ ''"'')), c))
       \<and> (ident \<noteq> [] \<and> getItem (conversation c) ident = Some item
            \<and> item_type item \<noteq> Message \<longrightarrow>
            cancelResponse c (Some ident) sampleCount =
              (Inl (Error (''Can only cancelResponse messages with type "message"'')), c))
       \<and> (ident \<noteq> [] \<and> getItem (conversation c) ident = Some item
            \<and> item_type item = Message \<and> role item \<noteq> Some Assistant \<longrightarrow>
            cancelResponse c (Some ident) sampleCount =
              (Inl (Error (''Can only cancelResponse messages with role "assistant"'')), c))\<close>
  by (auto simp: cancelResponse_def send_def isConnected_def isConnected_api_def)

theorem cancelResponse_preconditions_witness:
  \<open>isConnected talking_client
   \<and> cancelResponse talking_client None (Finite 0) =
       (Inr None, talking_client\<lparr>realtime := \<lparr>connected = True, outbox = [(''response.cancel'', NoData)]\<rparr>\<rparr>)
   \<and> getItem (conversation talking_client) ''zz'' = None
   \<and> fst (cancelResponse talking_client (Some ''zz'') (Finite 0))
       = Inl (Error (''Could not find item "zz"''))
   \<and> snd (cancelResponse talking_client (Some ''zz'') (Finite 0)) = talking_client
   \<and> getItem (conversation talking_client) ''f'' = Some call_item
   \<and> item_type call_item \<noteq> Message
   \<and> snd (cancelResponse talking_client (Some ''f'') (Finite 0)) = talking_client
   \<and> getItem (conversation talking_client) ''u'' = Some user_item
   \<and> item_type user_item = Message \<and> role user_item \<noteq> Some Assistant
   \<and> snd (cancelResponse talking_client (Some ''u'') (Finite 0)) = talking_client\<close>
proof -
  have h1: "isConnected talking_client"
    by (simp add: talking_client_def online_client_def isConnected_def isConnected_api_def)
  have r: "realtime talking_client = \<lparr>connected = True, outbox = []\<rparr>"
    by (simp add: talking_client_def online_client_def)
  have z: "getItem (conversation talking_client) ''zz'' = None"
    by (simp add: talking_client_def getItem_def user_item_def call_item_def
        silent_item_def assistant_item_def)
  have f: "getItem (conversation talking_client) ''f'' = Some call_item"
    by (simp add: talking_client_def getItem_def user_item_def call_item_def
        silent_item_def assistant_item_def)
  have u: "getItem (conversation talking_client) ''u'' = Some user_item"
    by (simp add: talking_client_def getItem_def user_item_def call_item_def
        silent_item_def assistant_item_def)
  have tf: "item_type call_item \<noteq> Message"
    by (simp add: call_item_def assistant_item_def)
  have tu: "item_type user_item = Message" "role user_item \<noteq> Some Assistant"
    by (simp_all add: user_item_def assistant_item_def)
  show ?thesis
    using cancelResponse_preconditions [where c = talking_client and i = None and ident = "''zz''"
        and sampleCount = "Finite 0" and item = call_item]
      cancelResponse_preconditions [where c = talking_client and i = None and ident = "''f''"
        and sampleCount = "Finite 0" and item = call_item]
      cancelResponse_preconditions [where c = talking_client and i = None and ident = "''u''"
        and sampleCount = "Finite 0" and item = user_item]
      h1 z f u tf tu
    by (simp add: r)
qed

text \<open>
  C9. Called on a connected transport with the id of an assistant message that has no
  audio content part, \<open>cancelResponse\<close> throws the missing-audio error after it has sent
  \<open>response.cancel\<close>: the command stays sent.
\<close>

theorem cancelResponse_cancel_sent_before_audio_error:
  assumes "isConnected c"
    and "ident \<noteq> []"
    and "getItem (conversation c) ident = Some item"
    and "item_type item = Message"
    and "role item = Some Assistant"
    and "\<forall>p\<in>set (content item). content_type p \<noteq> Audio"
  shows "cancelResponse c (Some ident) sampleCount =
           (Inl (Error ''Could not find audio on item to cancel''),
            c\<lparr>realtime := (realtime c)\<lparr>outbox := outbox (realtime c) @
               [(''response.cancel'', NoData)]\<rparr>\<rparr>)"
proof -
  have "findIndex (\<lambda>p. content_type p = Audio) (content item) = - 1"
    using assms(6) by (simp add: findIndex_none)
  then show ?thesis
    using assms(1-5)
    by (simp add: cancelResponse_def send_def isConnected_def isConnected_api_def Let_def)
qed

theorem cancelResponse_cancel_sent_before_audio_error_witness:
  "isConnected talking_client
   \<and> getItem (conversation talking_client) ''s'' = Some silent_item
   \<and> item_type silent_item = Message \<and> role silent_item = Some Assistant
   \<and> content silent_item = [text_part] \<and> content_type text_part = Text
   \<and> fst (cancelResponse talking_client (Some ''s'') (Finite 100))
       = Inl (Error ''Could not find audio on item to cancel'')
   \<and> sent_by talking_client (snd (cancelResponse talking_client (Some ''s'') (Finite 100)))
       = [(''response.cancel'', NoData)]"
proof -
  have h1: "isConnected talking_client"
    by (simp add: talking_client_def online_client_def isConnected_def isConnected_api_def)
  have h3: "getItem (conversation talking_client) ''s'' = Some silent_item"
    by (simp add: talking_client_def getItem_def user_item_def call_item_def
        silent_item_def assistant_item_def)
  have h4: "item_type silent_item = Message" "role silent_item = Some Assistant"
    by (simp_all add: silent_item_def assistant_item_def)
  have h6: "\<forall>p\<in>set (content silent_item). content_type p \<noteq> Audio"
    by (simp add: silent_item_def text_part_def)
  have h7: "content silent_item = [text_part]" "content_type text_part = Text"
    by (simp_all add: silent_item_def assistant_item_def text_part_def)
  from cancelResponse_cancel_sent_before_audio_error [OF h1 _ h3 h4 h6, of "Finite 100"]
  show ?thesis
    using h1 h3 h4 h7 by (simp add: sent_by_def)
qed

subsection \<open>The tool registry\<close>

lemma set_if_defined_None [simp]: "set_if_defined None old = old"
  by (simp add: set_if_defined_def)

lemma updateSession_no_session:
  "updateSession c no_session =
     (Inr True,
      if isConnected c then
        c\<lparr>realtime := (realtime c)\<lparr>outbox := outbox (realtime c) @
          [(''session.update'',
            SessionData ((sessionConfig c)\<lparr>session_tools := Some (registered_tools (tools c))\<rparr>))]\<rparr>\<rparr>
      else c)"
  by (simp add: updateSession_def no_session_def send_def isConnected_def isConnected_api_def
      Let_def)

lemma map_of_filter_key: "map_of (filter (\<lambda>(key, cfg). key \<noteq> n) reg) n = None"
  by (induction reg) auto

lemma map_of_filter_other:
  "k \<noteq> n \<Longrightarrow> map_of (filter (\<lambda>(key, cfg). key \<noteq> n) reg) k = map_of reg k"
  by (induction reg) auto

lemma get_property_own: "map_of obj key = Some v \<Longrightarrow> get_property obj key = Own v"
  by (simp add: get_property_def)

lemma get_property_Undefined:
  "get_property obj key = Undefined
     \<longleftrightarrow> map_of obj key = None \<and> key \<notin> set Object_prototype_names"
  by (simp add: get_property_def split: option.splits)

lemma get_property_append_new:
  "get_property obj key = Undefined \<Longrightarrow> map_of (obj @ [(key, v)]) key = Some v"
  by (simp add: get_property_Undefined map_add_def)

lemma get_property_delete:
  "get_property (delete_property obj key) key
     = (if key \<in> set Object_prototype_names then Inherited else Undefined)"
  by (simp add: get_property_def delete_property_def map_of_filter_key)

text \<open>The order of \<open>Object.keys\<close> rearranges the own properties and loses none.\<close>

lemma set_own_entries: "set (own_entries obj) = set obj"
  by (auto simp: own_entries_def)

lemma length_own_entries: "length (own_entries obj) = length obj"
proof -
  have "length (filter (\<lambda>(k, v). is_array_index k) obj)
      + length (filter (\<lambda>(k, v). \<not> is_array_index k) obj) = length obj"
    by (induction obj) auto
  then show ?thesis
    by (simp add: own_entries_def)
qed

lemma own_entries_no_index:
  "\<forall>(k, v)\<in>set obj. \<not> is_array_index k \<Longrightarrow> own_entries obj = obj"
proof -
  assume a: "\<forall>(k, v)\<in>set obj. \<not> is_array_index k"
  then have "filter (\<lambda>(k, v). is_array_index k) obj = []"
    by (auto simp: filter_empty_conv)
  moreover from a have "filter (\<lambda>(k, v). \<not> is_array_index k) obj = obj"
    by (auto simp: filter_id_conv)
  ultimately show ?thesis
    by (simp add: own_entries_def)
qed

lemma not_array_index_letter: "s \<noteq> [] \<Longrightarrow> \<not> is_digit (hd s) \<Longrightarrow> \<not> is_array_index s"
  by (cases s) (auto simp: is_array_index_def)

lemma set_registered_tools:
  "set (registered_tools reg) = (\<lambda>(key, cfg). as_function (tool_definition cfg)) ` set reg"
  by (simp add: registered_tools_def set_own_entries)

lemma length_registered_tools: "length (registered_tools reg) = length reg"
  by (simp add: registered_tools_def length_own_entries)

text \<open>
  What \<open>addTool\<close> and \<open>removeTool\<close> do, in terms of what \<open>this.tools[name]\<close> reads. A name
  that is not inherited from the object prototype reads as undefined exactly when no tool of
  that name is registered.
\<close>

lemma addTool_removeTool_outcomes:
  shows \<open>(defn = None \<or> defn = Some d \<and> name d = [] \<longrightarrow>
            addTool c defn h = (Inl (Error ''Missing tool name in definition''), c))
       \<and> (name d \<noteq> [] \<and> get_property (tools c) (name d) \<noteq> Undefined \<longrightarrow>
            addTool c (Some d) h =
              (Inl (Error (''Tool "'' @ name d @ ''" already added. Please use .removeTool("''
                           @ name d @ ''") before trying to add again.'')), c))
       \<and> (name d \<noteq> [] \<and> get_property (tools c) (name d) = Undefined \<longrightarrow>
            addTool c (Some d) NotAFunction =
              (Inl (Error (''Tool "'' @ name d @ ''" handler must be a function'')), c)
            \<and> addTool c (Some d) (Function f) =
                (Inr (Some \<lparr>tool_definition = d, handler = f\<rparr>),
                 snd (updateSession
                        (c\<lparr>tools := tools c @ [(name d, \<lparr>tool_definition = d, handler = f\<rparr>)]\<rparr>)
                        no_session))
            \<and> tools (snd (addTool c (Some d) (Function f)))
                = tools c @ [(name d, \<lparr>tool_definition = d, handler = f\<rparr>)]
            \<and> sent_by c (snd (addTool c (Some d) (Function f))) =
                (if isConnected c then
                   [(''session.update'',
                     SessionData ((sessionConfig c)\<lparr>session_tools := Some (registered_tools
                       (tools c @ [(name d, \<lparr>tool_definition = d, handler = f\<rparr>)]))\<rparr>))]
                 else []))
       \<and> (get_property (tools c) n = Undefined \<longrightarrow>
            removeTool c n =
              (Inl (Error (''Tool "'' @ n @ ''" does not exist, can not be removed.'')), c))
       \<and> (get_property (tools c) n \<noteq> Undefined \<longrightarrow>
            removeTool c n = (Inr True, c\<lparr>tools := filter (\<lambda>(key, cfg). key \<noteq> n) (tools c)\<rparr>)
            \<and> map_of (tools (snd (removeTool c n))) n = None
            \<and> (\<forall>k. k \<noteq> n \<longrightarrow> map_of (tools (snd (removeTool c n))) k = map_of (tools c) k)
            \<and> (n \<noteq> [] \<and> name d = n \<and> n \<notin> set Object_prototype_names \<longrightarrow>
                  fst (addTool (snd (removeTool c n)) (Some d) (Function f))
                    = Inr (Some \<lparr>tool_definition = d, handler = f\<rparr>)))\<close>
proof (intro conjI impI)
  assume "defn = None \<or> defn = Some d \<and> name d = []"
  then show "addTool c defn h = (Inl (Error ''Missing tool name in definition''), c)"
    by (auto simp: addTool_def)
next
  assume a: "name d \<noteq> [] \<and> get_property (tools c) (name d) \<noteq> Undefined"
  then show \<open>addTool c (Some d) h =
      (Inl (Error (''Tool "'' @ name d @ ''" already added. Please use .removeTool("''
                   @ name d @ ''") before trying to add again.'')), c)\<close>
    by (auto simp: addTool_def)
next
  assume a: "name d \<noteq> [] \<and> get_property (tools c) (name d) = Undefined"
  from a show \<open>addTool c (Some d) NotAFunction =
      (Inl (Error (''Tool "'' @ name d @ ''" handler must be a function'')), c)\<close>
    by (simp add: addTool_def)
  from a show "addTool c (Some d) (Function f) =
      (Inr (Some \<lparr>tool_definition = d, handler = f\<rparr>),
       snd (updateSession
              (c\<lparr>tools := tools c @ [(name d, \<lparr>tool_definition = d, handler = f\<rparr>)]\<rparr>)
              no_session))"
    by (simp add: addTool_def updateSession_no_session Let_def get_property_Undefined
        map_add_def)
  from a show "tools (snd (addTool c (Some d) (Function f)))
      = tools c @ [(name d, \<lparr>tool_definition = d, handler = f\<rparr>)]"
    by (simp add: addTool_def updateSession_no_session Let_def)
  from a show "sent_by c (snd (addTool c (Some d) (Function f))) =
      (if isConnected c then
         [(''session.update'',
           SessionData ((sessionConfig c)\<lparr>session_tools := Some (registered_tools
             (tools c @ [(name d, \<lparr>tool_definition = d, handler = f\<rparr>)]))\<rparr>))]
       else [])"
    by (simp add: addTool_def updateSession_no_session Let_def sent_by_def isConnected_def
        isConnected_api_def)
next
  assume "get_property (tools c) n = Undefined"
  then show \<open>removeTool c n =
      (Inl (Error (''Tool "'' @ n @ ''" does not exist, can not be removed.'')), c)\<close>
    by (simp add: removeTool_def)
next
  assume a: "get_property (tools c) n \<noteq> Undefined"
  then show r: "removeTool c n = (Inr True, c\<lparr>tools := filter (\<lambda>(key, cfg). key \<noteq> n) (tools c)\<rparr>)"
    by (simp add: removeTool_def delete_property_def)
  show "map_of (tools (snd (removeTool c n))) n = None"
    by (simp add: r map_of_filter_key)
  show "\<forall>k. k \<noteq> n \<longrightarrow> map_of (tools (snd (removeTool c n))) k = map_of (tools c) k"
    by (simp add: r map_of_filter_other)
  show "fst (addTool (snd (removeTool c n)) (Some d) (Function f))
        = Inr (Some \<lparr>tool_definition = d, handler = f\<rparr>)"
    if "n \<noteq> [] \<and> name d = n \<and> n \<notin> set Object_prototype_names"
  proof -
    have u: "get_property (filter (\<lambda>(key, cfg). key \<noteq> n) (tools c)) n = Undefined"
      using that get_property_delete [of "tools c" n] by (simp add: delete_property_def)
    show ?thesis
      using that u
      by (simp add: r addTool_def updateSession_no_session Let_def get_property_Undefined
          map_add_def)
  qed
qed

text \<open>
  C5 holds on the code for names that the registry object does not inherit, and fails for
  the others. On a client with no tool registered, \<open>addTool\<close> of a tool named \<open>toString\<close>
  throws the duplicate error and stores nothing, \<open>removeTool\<close> of that name returns true,
  and \<open>addTool\<close> after that \<open>removeTool\<close> throws the duplicate error again.
\<close>

theorem addTool_inherited_name_evaluation:
  \<open>tools (new_client 24000) = []
   \<and> addTool (new_client 24000) (Some toString_definition) (Function weather_handler)
       = (Inl (Error ''Tool "toString" already added. Please use .removeTool("toString") before trying to add again.''),
          new_client 24000)
   \<and> removeTool (new_client 24000) ''toString'' = (Inr True, new_client 24000)
   \<and> addTool (snd (removeTool (new_client 24000) ''toString'')) (Some toString_definition)
        (Function weather_handler)
       = (Inl (Error ''Tool "toString" already added. Please use .removeTool("toString") before trying to add again.''),
          new_client 24000)\<close>
proof -
  have t: "tools (new_client 24000) = []"
    by (simp add: new_client_def resetConfig_def)
  have g: "get_property [] ''toString'' = Inherited"
    by (simp add: get_property_def Object_prototype_names_def)
  have n: "name toString_definition = ''toString''"
    by (simp add: toString_definition_def)
  have r: "removeTool (new_client 24000) ''toString'' = (Inr True, new_client 24000)"
    by (simp add: removeTool_def t g delete_property_def)
  have a: \<open>addTool (new_client 24000) (Some toString_definition) (Function weather_handler)
       = (Inl (Error ''Tool "toString" already added. Please use .removeTool("toString") before trying to add again.''),
          new_client 24000)\<close>
    by (simp add: addTool_def t g n)
  show ?thesis
    by (simp add: t r a)
qed

text \<open>
  C10. \<open>removeTool\<close> of a registered name deletes the entry and returns true; it leaves
  the transport and the session configuration as they were, so it sends nothing. On a
  connected transport a successful \<open>addTool\<close> does send \<open>session.update\<close>, and the
  \<open>updateSession\<close> that follows a removal sends the tool list of the remaining registry.
\<close>

theorem removeTool_sends_nothing:
  assumes "map_of (tools c) n \<noteq> None"
  shows "removeTool c n = (Inr True, c\<lparr>tools := filter (\<lambda>(key, cfg). key \<noteq> n) (tools c)\<rparr>)
       \<and> realtime (snd (removeTool c n)) = realtime c
       \<and> sent_by c (snd (removeTool c n)) = []
       \<and> sessionConfig (snd (removeTool c n)) = sessionConfig c
       \<and> (isConnected c \<and> name d \<noteq> [] \<and> map_of (tools c) (name d) = None
          \<and> name d \<notin> set Object_prototype_names \<longrightarrow>
            sent_by c (snd (addTool c (Some d) (Function f))) =
              [(''session.update'',
                SessionData ((sessionConfig c)\<lparr>session_tools := Some (registered_tools
                  (tools c @ [(name d, \<lparr>tool_definition = d, handler = f\<rparr>)]))\<rparr>))])
       \<and> (isConnected c \<longrightarrow>
            sent_by c (snd (updateSession (snd (removeTool c n)) no_session)) =
              [(''session.update'',
                SessionData ((sessionConfig c)\<lparr>session_tools := Some (registered_tools
                  (filter (\<lambda>(key, cfg). key \<noteq> n) (tools c)))\<rparr>))])"
proof -
  from assms obtain v where v: "map_of (tools c) n = Some v" by blast
  have g: "get_property (tools c) n \<noteq> Undefined"
    by (simp add: get_property_own [OF v])
  have r: "removeTool c n = (Inr True, c\<lparr>tools := filter (\<lambda>(key, cfg). key \<noteq> n) (tools c)\<rparr>)"
    using g by (simp add: removeTool_def delete_property_def)
  have a: "sent_by c (snd (addTool c (Some d) (Function f))) =
      [(''session.update'',
        SessionData ((sessionConfig c)\<lparr>session_tools := Some (registered_tools
          (tools c @ [(name d, \<lparr>tool_definition = d, handler = f\<rparr>)]))\<rparr>))]"
    if "isConnected c \<and> name d \<noteq> [] \<and> map_of (tools c) (name d) = None
          \<and> name d \<notin> set Object_prototype_names"
  proof -
    from that have u: "get_property (tools c) (name d) = Undefined"
      by (simp add: get_property_Undefined)
    show ?thesis
      using that u
      by (simp add: addTool_def updateSession_no_session Let_def sent_by_def isConnected_def
          isConnected_api_def)
  qed
  have u: "sent_by c (snd (updateSession (snd (removeTool c n)) no_session)) =
      [(''session.update'',
        SessionData ((sessionConfig c)\<lparr>session_tools := Some (registered_tools
          (filter (\<lambda>(key, cfg). key \<noteq> n) (tools c)))\<rparr>))]"
    if "isConnected c"
    using that
    by (simp add: r updateSession_no_session sent_by_def isConnected_def isConnected_api_def)
  show ?thesis
    using r a u by (simp add: sent_by_def)
qed

theorem removeTool_sends_nothing_witness:
  "map_of (tools tooled_client) ''get_weather'' \<noteq> None
   \<and> isConnected tooled_client
   \<and> fst (removeTool tooled_client ''get_weather'') = Inr True
   \<and> tools (snd (removeTool tooled_client ''get_weather'')) = []
   \<and> sent_by tooled_client (snd (removeTool tooled_client ''get_weather'')) = []
   \<and> sent_by tooled_client
        (snd (updateSession (snd (removeTool tooled_client ''get_weather'')) no_session))
       = [(''session.update'', SessionData default_session)]"
proof -
  have h: "map_of (tools tooled_client) ''get_weather'' \<noteq> None"
    by (simp add: tooled_client_def)
  have conn: "isConnected tooled_client"
    by (simp add: tooled_client_def staged_client_def online_client_def isConnected_def
        isConnected_api_def)
  have t1: "tools tooled_client = [(''get_weather'',
      \<lparr>tool_definition = weather_definition, handler = weather_handler\<rparr>)]"
    by (simp add: tooled_client_def)
  have s: "sessionConfig tooled_client = default_session"
    by (simp add: tooled_client_def staged_client_def online_client_def new_client_def
        resetConfig_def)
  have e: "registered_tools [] = []"
    by (simp add: registered_tools_def own_entries_def)
  show ?thesis
    using removeTool_sends_nothing [OF h, of weather_definition weather_handler] h conn
    by (simp add: t1 s e default_session_def sent_by_def removeTool_def get_property_def
        delete_property_def updateSession_no_session isConnected_def isConnected_api_def)
qed

subsection \<open>Updating the session\<close>

lemma name_as_function [simp]: "name (as_function t) = name t"
  by (simp add: as_function_def)

lemma inline_tools_ok:
  "\<forall>t\<in>set ts. get_property reg (name t) = Undefined \<Longrightarrow> inline_tools reg ts = Inr (map as_function ts)"
  by (induction ts) (auto simp: Let_def)

lemma inline_tools_dup:
  \<open>\<exists>t\<in>set ts. get_property reg (name t) \<noteq> Undefined \<Longrightarrow>
   \<exists>t\<in>set ts. get_property reg (name t) \<noteq> Undefined
     \<and> inline_tools reg ts = Inl (Error (''Tool "'' @ name t @ ''" has already been defined''))\<close>
proof (induction ts)
  case Nil
  then show ?case by simp
next
  case (Cons a ts)
  show ?case
  proof (cases "get_property reg (name a) = Undefined")
    case False
    then show ?thesis by (auto simp: Let_def)
  next
    case True
    with Cons.prems have "\<exists>t\<in>set ts. get_property reg (name t) \<noteq> Undefined" by auto
    from Cons.IH [OF this] obtain t where "t \<in> set ts" "get_property reg (name t) \<noteq> Undefined"
      \<open>inline_tools reg ts = Inl (Error (''Tool "'' @ name t @ ''" has already been defined''))\<close>
      by blast
    with True show ?thesis by (auto simp: Let_def)
  qed
qed

lemma updateSession_frame:
  "tools (snd (updateSession c p)) = tools c
   \<and> conversation (snd (updateSession c p)) = conversation c
   \<and> inputAudioBuffer (snd (updateSession c p)) = inputAudioBuffer c
   \<and> sessionCreated (snd (updateSession c p)) = sessionCreated c
   \<and> defaultSessionConfig (snd (updateSession c p)) = defaultSessionConfig c
   \<and> dispatched (snd (updateSession c p)) = dispatched c
   \<and> connected (realtime (snd (updateSession c p))) = connected (realtime c)"
  by (simp add: updateSession_def send_def Let_def split: sum.splits)

lemma updateSession_config:
  "sessionConfig (snd (updateSession c p)) =
     (sessionConfig c)
       \<lparr>modalities := set_if_defined (modalities p) (modalities (sessionConfig c)),
        instructions := set_if_defined (instructions p) (instructions (sessionConfig c)),
        voice := set_if_defined (voice p) (voice (sessionConfig c)),
        input_audio_format :=
          set_if_defined (input_audio_format p) (input_audio_format (sessionConfig c)),
        output_audio_format :=
          set_if_defined (output_audio_format p) (output_audio_format (sessionConfig c)),
        input_audio_transcription :=
          set_if_defined (input_audio_transcription p)
            (input_audio_transcription (sessionConfig c)),
        turn_detection := set_if_defined (turn_detection p) (turn_detection (sessionConfig c)),
        session_tools := set_if_defined (session_tools p) (session_tools (sessionConfig c)),
        tool_choice := set_if_defined (tool_choice p) (tool_choice (sessionConfig c)),
        temperature := set_if_defined (temperature p) (temperature (sessionConfig c)),
        max_response_output_tokens :=
          set_if_defined (max_response_output_tokens p)
            (max_response_output_tokens (sessionConfig c))\<rparr>"
  by (simp add: updateSession_def send_def Let_def split: sum.splits)

lemma updateSession_sent_ok:
  assumes "\<forall>t\<in>set (case session_tools p of None \<Rightarrow> [] | Some ts \<Rightarrow> ts).
             get_property (tools c) (name t) = Undefined"
  shows "fst (updateSession c p) = Inr True"
    and "outbox (realtime (snd (updateSession c p))) =
           outbox (realtime c) @
             (if isConnected c then
                [(''session.update'',
                  SessionData ((sessionConfig (snd (updateSession c p)))
                    \<lparr>session_tools := Some
                       (map as_function (case session_tools p of None \<Rightarrow> [] | Some ts \<Rightarrow> ts)
                        @ registered_tools (tools c))\<rparr>))]
              else [])"
  using inline_tools_ok [OF assms]
  by (simp_all add: updateSession_def send_def Let_def isConnected_def isConnected_api_def)

lemma updateSession_sent_dup:
  assumes "\<exists>t\<in>set (case session_tools p of None \<Rightarrow> [] | Some ts \<Rightarrow> ts).
             get_property (tools c) (name t) \<noteq> Undefined"
  shows \<open>\<exists>t\<in>set (case session_tools p of None \<Rightarrow> [] | Some ts \<Rightarrow> ts).
           get_property (tools c) (name t) \<noteq> Undefined
           \<and> fst (updateSession c p)
               = Inl (Error (''Tool "'' @ name t @ ''" has already been defined''))\<close>
    and "realtime (snd (updateSession c p)) = realtime c"
proof -
  from inline_tools_dup [OF assms] obtain t
    where t: "t \<in> set (case session_tools p of None \<Rightarrow> [] | Some ts \<Rightarrow> ts)"
      "get_property (tools c) (name t) \<noteq> Undefined"
      \<open>inline_tools (tools c) (case session_tools p of None \<Rightarrow> [] | Some ts \<Rightarrow> ts)
         = Inl (Error (''Tool "'' @ name t @ ''" has already been defined''))\<close>
    by blast
  from t(3) have \<open>fst (updateSession c p)
      = Inl (Error (''Tool "'' @ name t @ ''" has already been defined''))\<close>
    by (simp add: updateSession_def Let_def)
  with t(1,2) show \<open>\<exists>t\<in>set (case session_tools p of None \<Rightarrow> [] | Some ts \<Rightarrow> ts).
           get_property (tools c) (name t) \<noteq> Undefined
           \<and> fst (updateSession c p)
               = Inl (Error (''Tool "'' @ name t @ ''" has already been defined''))\<close>
    by blast
  from t(3) show "realtime (snd (updateSession c p)) = realtime c"
    by (simp add: updateSession_def Let_def)
qed


text \<open>
  C6, as stated, fails on the code. \<open>model\<close> is a field of a session resource that
  \<open>updateSession\<close> never reads: set in the argument, it is not written. And an inline tool
  passed while the transport is not connected is stored, yet the command that \<open>connect\<close>
  sends carries no tool.
\<close>

theorem updateSession_model_not_written_counterexample:
  "model echo_update = Some ''other''
   \<and> model (sessionConfig online_client) = None
   \<and> model (sessionConfig (snd (updateSession online_client echo_update))) = None
   \<and> session_tools (sessionConfig (snd (updateSession (new_client 24000) echo_update)))
       = Some [weather_definition]
   \<and> sent_by (new_client 24000)
        (snd (connect (snd (updateSession (new_client 24000) echo_update)))) =
       [(''session.update'',
         SessionData (default_session\<lparr>voice := Some echo, session_tools := Some []\<rparr>))]"
proof -
  have s0: "sessionConfig online_client = default_session"
    "sessionConfig (new_client 24000) = default_session"
    by (simp_all add: online_client_def new_client_def resetConfig_def)
  have cfg: "sessionConfig (snd (updateSession online_client echo_update))
      = default_session\<lparr>voice := Some echo, session_tools := Some [weather_definition]\<rparr>"
    "sessionConfig (snd (updateSession (new_client 24000) echo_update))
      = default_session\<lparr>voice := Some echo, session_tools := Some [weather_definition]\<rparr>"
    by (simp_all add: updateSession_config s0 echo_update_def no_session_def set_if_defined_def
        default_session_def)
  have t0: "tools (new_client 24000) = []"
    by (simp add: new_client_def resetConfig_def)
  have g: "get_property [] (name weather_definition) = Undefined"
    by (simp add: get_property_def weather_definition_def Object_prototype_names_def)
  have u: "updateSession (new_client 24000) echo_update
      = (Inr True, (new_client 24000)\<lparr>sessionConfig :=
           default_session\<lparr>voice := Some echo, session_tools := Some [weather_definition]\<rparr>\<rparr>)"
    using cfg(2)
    by (simp add: updateSession_def Let_def t0 g echo_update_def no_session_def
        isConnected_api_def new_client_def resetConfig_def set_if_defined_def
        default_session_def)
  have e: "registered_tools [] = []"
    by (simp add: registered_tools_def own_entries_def)
  have rt: "realtime (new_client 24000) = \<lparr>connected = False, outbox = []\<rparr>"
    by (simp add: new_client_def resetConfig_def)
  have m1: "model echo_update = Some ''other''"
    by (simp add: echo_update_def no_session_def)
  have m2: "model (sessionConfig online_client) = None"
    by (simp add: s0 default_session_def)
  have m3: "model (sessionConfig (snd (updateSession online_client echo_update))) = None"
    by (simp add: cfg default_session_def)
  have m4: "session_tools (sessionConfig (snd (updateSession (new_client 24000) echo_update)))
       = Some [weather_definition]"
    by (simp add: cfg)
  have m5: "sent_by (new_client 24000)
        (snd (connect (snd (updateSession (new_client 24000) echo_update)))) =
       [(''session.update'',
         SessionData (default_session\<lparr>voice := Some echo, session_tools := Some []\<rparr>))]"
    by (simp add: u connect_def updateSession_no_session isConnected_def isConnected_api_def
        connect_api_def rt t0 sent_by_def e)
  from m1 m2 m3 m4 m5 show ?thesis
    by (intro conjI)
qed

text \<open>
  C6, amended. For every partial configuration, \<open>updateSession\<close> leaves each of the eleven
  fields it reads (every field of a session resource but the model) as it was when the
  argument leaves the field unset, and writes the argument's value otherwise; the model, the
  registry, the conversation and the audio buffer stay as they were. The registered tools
  are the definitions of the registry, each once. When no inline tool has a registered name
  or a name that the registry object inherits, the call returns true, and the commands sent
  are one \<open>session.update\<close> if the transport is connected and none if it is not; the tool
  list sent is the inline tools followed by the registered ones. When an inline tool has a
  registered name and none has an inherited one, the call throws the duplicate error for a
  registered name and sends nothing. After a call that returns on a transport that is not
  connected, the stored configuration is the merged one, and \<open>connect\<close> sends one
  \<open>session.update\<close> that carries it, whatever the tool list.
\<close>

theorem updateSession_merges_and_sends:
  shows \<open>modalities (sessionConfig (snd (updateSession c p))) =
        (case modalities p of None \<Rightarrow> modalities (sessionConfig c) | Some v \<Rightarrow> Some v)
    \<and> instructions (sessionConfig (snd (updateSession c p))) =
        (case instructions p of None \<Rightarrow> instructions (sessionConfig c) | Some v \<Rightarrow> Some v)
    \<and> voice (sessionConfig (snd (updateSession c p))) =
        (case voice p of None \<Rightarrow> voice (sessionConfig c) | Some v \<Rightarrow> Some v)
    \<and> input_audio_format (sessionConfig (snd (updateSession c p))) =
        (case input_audio_format p of None \<Rightarrow> input_audio_format (sessionConfig c) | Some v \<Rightarrow> Some v)
    \<and> output_audio_format (sessionConfig (snd (updateSession c p))) =
        (case output_audio_format p of None \<Rightarrow> output_audio_format (sessionConfig c) | Some v \<Rightarrow> Some v)
    \<and> input_audio_transcription (sessionConfig (snd (updateSession c p))) =
        (case input_audio_transcription p of None \<Rightarrow> input_audio_transcription (sessionConfig c) | Some v \<Rightarrow> Some v)
    \<and> turn_detection (sessionConfig (snd (updateSession c p))) =
        (case turn_detection p of None \<Rightarrow> turn_detection (sessionConfig c) | Some v \<Rightarrow> Some v)
    \<and> session_tools (sessionConfig (snd (updateSession c p))) =
        (case session_tools p of None \<Rightarrow> session_tools (sessionConfig c) | Some v \<Rightarrow> Some v)
    \<and> tool_choice (sessionConfig (snd (updateSession c p))) =
        (case tool_choice p of None \<Rightarrow> tool_choice (sessionConfig c) | Some v \<Rightarrow> Some v)
    \<and> temperature (sessionConfig (snd (updateSession c p))) =
        (case temperature p of None \<Rightarrow> temperature (sessionConfig c) | Some v \<Rightarrow> Some v)
    \<and> max_response_output_tokens (sessionConfig (snd (updateSession c p))) =
        (case max_response_output_tokens p of None \<Rightarrow> max_response_output_tokens (sessionConfig c) | Some v \<Rightarrow> Some v)
    \<and> model (sessionConfig (snd (updateSession c p))) = model (sessionConfig c)
    \<and> tools (snd (updateSession c p)) = tools c
    \<and> conversation (snd (updateSession c p)) = conversation c
    \<and> inputAudioBuffer (snd (updateSession c p)) = inputAudioBuffer c
    \<and> set (registered_tools (tools c))
        = (\<lambda>(key, cfg). as_function (tool_definition cfg)) ` set (tools c)
    \<and> length (registered_tools (tools c)) = length (tools c)
    \<and> ((\<forall>t\<in>set (case session_tools p of None \<Rightarrow> [] | Some ts \<Rightarrow> ts). map_of (tools c) (name t) = None \<and> name t \<notin> set Object_prototype_names) \<longrightarrow>
          fst (updateSession c p) = Inr True
        \<and> sent_by c (snd (updateSession c p)) =
            (if isConnected c then
               [(''session.update'',
                 SessionData ((sessionConfig (snd (updateSession c p)))
                   \<lparr>session_tools := Some (map as_function (case session_tools p of None \<Rightarrow> [] | Some ts \<Rightarrow> ts) @ registered_tools (tools c))\<rparr>))]
             else []))
    \<and> ((\<exists>t\<in>set (case session_tools p of None \<Rightarrow> [] | Some ts \<Rightarrow> ts). map_of (tools c) (name t) \<noteq> None)
        \<and> (\<forall>t\<in>set (case session_tools p of None \<Rightarrow> [] | Some ts \<Rightarrow> ts). name t \<notin> set Object_prototype_names) \<longrightarrow>
          (\<exists>t\<in>set (case session_tools p of None \<Rightarrow> [] | Some ts \<Rightarrow> ts). map_of (tools c) (name t) \<noteq> None
             \<and> fst (updateSession c p)
                 = Inl (Error (''Tool "'' @ name t @ ''" has already been defined'')))
        \<and> sent_by c (snd (updateSession c p)) = [])
    \<and> (\<not> isConnected c \<and> (\<forall>t\<in>set (case session_tools p of None \<Rightarrow> [] | Some ts \<Rightarrow> ts). map_of (tools c) (name t) = None \<and> name t \<notin> set Object_prototype_names) \<longrightarrow>
          realtime (snd (updateSession c p)) = realtime c
        \<and> fst (connect (snd (updateSession c p))) = Inr True
        \<and> sessionConfig (snd (connect (snd (updateSession c p))))
            = sessionConfig (snd (updateSession c p))
        \<and> (\<exists>ts. sent_by c (snd (connect (snd (updateSession c p)))) =
             [(''session.update'',
               SessionData ((sessionConfig (snd (updateSession c p)))
                 \<lparr>session_tools := ts\<rparr>))]))\<close>
proof -
  have cfg: \<open>modalities (sessionConfig (snd (updateSession c p))) =
        (case modalities p of None \<Rightarrow> modalities (sessionConfig c) | Some v \<Rightarrow> Some v)
    \<and> instructions (sessionConfig (snd (updateSession c p))) =
        (case instructions p of None \<Rightarrow> instructions (sessionConfig c) | Some v \<Rightarrow> Some v)
    \<and> voice (sessionConfig (snd (updateSession c p))) =
        (case voice p of None \<Rightarrow> voice (sessionConfig c) | Some v \<Rightarrow> Some v)
    \<and> input_audio_format (sessionConfig (snd (updateSession c p))) =
        (case input_audio_format p of None \<Rightarrow> input_audio_format (sessionConfig c) | Some v \<Rightarrow> Some v)
    \<and> output_audio_format (sessionConfig (snd (updateSession c p))) =
        (case output_audio_format p of None \<Rightarrow> output_audio_format (sessionConfig c) | Some v \<Rightarrow> Some v)
    \<and> input_audio_transcription (sessionConfig (snd (updateSession c p))) =
        (case input_audio_transcription p of None \<Rightarrow> input_audio_transcription (sessionConfig c) | Some v \<Rightarrow> Some v)
    \<and> turn_detection (sessionConfig (snd (updateSession c p))) =
        (case turn_detection p of None \<Rightarrow> turn_detection (sessionConfig c) | Some v \<Rightarrow> Some v)
    \<and> session_tools (sessionConfig (snd (updateSession c p))) =
        (case session_tools p of None \<Rightarrow> session_tools (sessionConfig c) | Some v \<Rightarrow> Some v)
    \<and> tool_choice (sessionConfig (snd (updateSession c p))) =
        (case tool_choice p of None \<Rightarrow> tool_choice (sessionConfig c) | Some v \<Rightarrow> Some v)
    \<and> temperature (sessionConfig (snd (updateSession c p))) =
        (case temperature p of None \<Rightarrow> temperature (sessionConfig c) | Some v \<Rightarrow> Some v)
    \<and> max_response_output_tokens (sessionConfig (snd (updateSession c p))) =
        (case max_response_output_tokens p of None \<Rightarrow> max_response_output_tokens (sessionConfig c) | Some v \<Rightarrow> Some v)
    \<and> model (sessionConfig (snd (updateSession c p))) = model (sessionConfig c)\<close>
    unfolding updateSession_config by (simp add: set_if_defined_def)
  have frame: "tools (snd (updateSession c p)) = tools c
    \<and> conversation (snd (updateSession c p)) = conversation c
    \<and> inputAudioBuffer (snd (updateSession c p)) = inputAudioBuffer c"
    using updateSession_frame [of c p] by simp
  have reg: "set (registered_tools (tools c))
        = (\<lambda>(key, cfg). as_function (tool_definition cfg)) ` set (tools c)
    \<and> length (registered_tools (tools c)) = length (tools c)"
    by (simp add: set_registered_tools length_registered_tools)
  have und: "\<forall>t\<in>set (case session_tools p of None \<Rightarrow> [] | Some ts \<Rightarrow> ts). get_property (tools c) (name t) = Undefined" if "(\<forall>t\<in>set (case session_tools p of None \<Rightarrow> [] | Some ts \<Rightarrow> ts). map_of (tools c) (name t) = None \<and> name t \<notin> set Object_prototype_names)"
    using that by (simp add: get_property_Undefined)
  have ok: "fst (updateSession c p) = Inr True
        \<and> sent_by c (snd (updateSession c p)) =
            (if isConnected c then
               [(''session.update'',
                 SessionData ((sessionConfig (snd (updateSession c p)))
                   \<lparr>session_tools := Some (map as_function (case session_tools p of None \<Rightarrow> [] | Some ts \<Rightarrow> ts) @ registered_tools (tools c))\<rparr>))]
             else [])"
    if "(\<forall>t\<in>set (case session_tools p of None \<Rightarrow> [] | Some ts \<Rightarrow> ts). map_of (tools c) (name t) = None \<and> name t \<notin> set Object_prototype_names)"
    using updateSession_sent_ok [OF und [OF that]] by (simp add: sent_by_def)
  have dup: \<open>(\<exists>t\<in>set (case session_tools p of None \<Rightarrow> [] | Some ts \<Rightarrow> ts). map_of (tools c) (name t) \<noteq> None
             \<and> fst (updateSession c p)
                 = Inl (Error (''Tool "'' @ name t @ ''" has already been defined'')))
        \<and> sent_by c (snd (updateSession c p)) = []\<close>
    if h: "(\<exists>t\<in>set (case session_tools p of None \<Rightarrow> [] | Some ts \<Rightarrow> ts). map_of (tools c) (name t) \<noteq> None)
        \<and> (\<forall>t\<in>set (case session_tools p of None \<Rightarrow> [] | Some ts \<Rightarrow> ts). name t \<notin> set Object_prototype_names)"
  proof -
    from h have "\<exists>t\<in>set (case session_tools p of None \<Rightarrow> [] | Some ts \<Rightarrow> ts). get_property (tools c) (name t) \<noteq> Undefined"
      by (auto simp: get_property_Undefined)
    from updateSession_sent_dup [OF this] obtain t where t: "t \<in> set (case session_tools p of None \<Rightarrow> [] | Some ts \<Rightarrow> ts)"
      "get_property (tools c) (name t) \<noteq> Undefined"
      \<open>fst (updateSession c p) = Inl (Error (''Tool "'' @ name t @ ''" has already been defined''))\<close>
      and r: "realtime (snd (updateSession c p)) = realtime c"
      by blast
    from t(1,2) h have "map_of (tools c) (name t) \<noteq> None"
      by (auto simp: get_property_Undefined)
    with t(1,3) r show ?thesis
      by (auto simp: sent_by_def)
  qed
  have later: "realtime (snd (updateSession c p)) = realtime c
        \<and> fst (connect (snd (updateSession c p))) = Inr True
        \<and> sessionConfig (snd (connect (snd (updateSession c p))))
            = sessionConfig (snd (updateSession c p))
        \<and> (\<exists>ts. sent_by c (snd (connect (snd (updateSession c p)))) =
             [(''session.update'',
               SessionData ((sessionConfig (snd (updateSession c p)))
                 \<lparr>session_tools := ts\<rparr>))])"
    if "\<not> isConnected c \<and> (\<forall>t\<in>set (case session_tools p of None \<Rightarrow> [] | Some ts \<Rightarrow> ts). map_of (tools c) (name t) = None \<and> name t \<notin> set Object_prototype_names)"
  proof -
    from that have nc: "\<not> isConnected c" and nd: "(\<forall>t\<in>set (case session_tools p of None \<Rightarrow> [] | Some ts \<Rightarrow> ts). map_of (tools c) (name t) = None \<and> name t \<notin> set Object_prototype_names)"
      by auto
    have out: "outbox (realtime (snd (updateSession c p))) = outbox (realtime c)"
      using updateSession_sent_ok(2) [OF und [OF nd]] nc by simp
    have con: "connected (realtime (snd (updateSession c p))) = connected (realtime c)"
      using updateSession_frame [of c p] by simp
    have r: "realtime (snd (updateSession c p)) = realtime c"
      using out con by simp
    have nc': "\<not> isConnected (snd (updateSession c p))"
      using nc r by (simp add: isConnected_def)
    have "sent_by c (snd (connect (snd (updateSession c p)))) =
             [(''session.update'',
               SessionData ((sessionConfig (snd (updateSession c p)))
                 \<lparr>session_tools := Some (registered_tools (tools c))\<rparr>))]"
      using nc' r frame
      by (simp add: connect_def updateSession_no_session connect_api_def isConnected_def
          isConnected_api_def sent_by_def)
    then have "\<exists>ts. sent_by c (snd (connect (snd (updateSession c p)))) =
             [(''session.update'',
               SessionData ((sessionConfig (snd (updateSession c p)))
                 \<lparr>session_tools := ts\<rparr>))]"
      by blast
    moreover have "fst (connect (snd (updateSession c p))) = Inr True
        \<and> sessionConfig (snd (connect (snd (updateSession c p))))
            = sessionConfig (snd (updateSession c p))"
      using nc' r frame
      by (simp add: connect_def updateSession_no_session connect_api_def isConnected_def
          isConnected_api_def)
    ultimately show ?thesis
      using r by blast
  qed
  from cfg frame reg ok dup later show ?thesis by blast
qed

theorem updateSession_merges_and_sends_witness:
  \<open>voice (sessionConfig (snd (updateSession online_client echo_update))) = Some echo
   \<and> temperature (sessionConfig (snd (updateSession online_client echo_update))) = Some (4 / 5)
   \<and> isConnected online_client
   \<and> fst (updateSession online_client echo_update) = Inr True
   \<and> sent_by online_client (snd (updateSession online_client echo_update)) =
       [(''session.update'',
         SessionData (default_session\<lparr>voice := Some echo,
           session_tools := Some [weather_definition\<lparr>tool_type := Some ''function''\<rparr>]\<rparr>))]
   \<and> isConnected tooled_client
   \<and> sent_by tooled_client (snd (updateSession tooled_client lookup_update)) =
       [(''session.update'',
         SessionData (default_session\<lparr>session_tools := Some
           [lookup_definition\<lparr>tool_type := Some ''function''\<rparr>,
            weather_definition\<lparr>tool_type := Some ''function''\<rparr>]\<rparr>))]
   \<and> map (\<lambda>d. name d) (registered_tools (tools numbered_client)) = [''1'', ''2'']
   \<and> fst (updateSession tooled_client echo_update)
       = Inl (Error ''Tool "get_weather" has already been defined'')
   \<and> sent_by tooled_client (snd (updateSession tooled_client echo_update)) = []
   \<and> \<not> isConnected (new_client 24000)
   \<and> sent_by (new_client 24000) (snd (updateSession (new_client 24000) echo_update)) = []
   \<and> length (sent_by (new_client 24000)
        (snd (connect (snd (updateSession (new_client 24000) echo_update))))) = 1\<close>
proof -
  have p: "session_tools echo_update = Some [weather_definition]" "voice echo_update = Some echo"
    "temperature echo_update = None" "session_tools lookup_update = Some [lookup_definition]"
    by (simp_all add: echo_update_def lookup_update_def no_session_def)
  have n: "name weather_definition = ''get_weather''" "name lookup_definition = ''lookup''"
    by (simp_all add: weather_definition_def lookup_definition_def)
  have inh: "''get_weather'' \<notin> set Object_prototype_names"
    "''lookup'' \<notin> set Object_prototype_names"
    by (simp_all add: Object_prototype_names_def)
  have t0: "tools online_client = []" "tools (new_client 24000) = []"
    by (simp_all add: online_client_def new_client_def resetConfig_def)
  have t1: "tools tooled_client = [(''get_weather'',
      \<lparr>tool_definition = weather_definition, handler = weather_handler\<rparr>)]"
    by (simp add: tooled_client_def)
  have s0: "sessionConfig online_client = default_session"
    "sessionConfig (new_client 24000) = default_session"
    "sessionConfig tooled_client = default_session"
    by (simp_all add: online_client_def new_client_def resetConfig_def tooled_client_def
        staged_client_def)
  have c0: "isConnected online_client" "\<not> isConnected (new_client 24000)"
    "isConnected tooled_client"
    by (simp_all add: online_client_def new_client_def resetConfig_def isConnected_def
        isConnected_api_def tooled_client_def staged_client_def)
  have cfg: "sessionConfig (snd (updateSession online_client echo_update))
      = default_session\<lparr>voice := Some echo, session_tools := Some [weather_definition]\<rparr>"
    "sessionConfig (snd (updateSession tooled_client lookup_update))
      = default_session\<lparr>session_tools := Some [lookup_definition]\<rparr>"
    by (simp_all add: updateSession_config s0 echo_update_def lookup_update_def no_session_def
        set_if_defined_def default_session_def)
  have f: "as_function weather_definition = weather_definition\<lparr>tool_type := Some ''function''\<rparr>"
    "as_function lookup_definition = lookup_definition\<lparr>tool_type := Some ''function''\<rparr>"
    by (simp_all add: as_function_def weather_definition_def lookup_definition_def)
  have na: "\<not> is_array_index ''get_weather''"
    by (rule not_array_index_letter) (simp_all add: is_digit_def)
  have r0: "registered_tools [] = []"
    by (simp add: registered_tools_def own_entries_def)
  have r1: "registered_tools [(''get_weather'',
      \<lparr>tool_definition = weather_definition, handler = weather_handler\<rparr>)]
      = [weather_definition\<lparr>tool_type := Some ''function''\<rparr>]"
    by (simp add: registered_tools_def own_entries_def na f)
  have ix: "is_array_index ''1''" "is_array_index ''2''"
    "decimal_value ''1'' = 1" "decimal_value ''2'' = 2"
    by (simp_all add: is_array_index_def is_digit_def decimal_value_def)
  have r2: "map (\<lambda>d. name d) (registered_tools (tools numbered_client)) = [''1'', ''2'']"
    by (simp add: numbered_client_def registered_tools_def own_entries_def ix as_function_def)
  have ln: "sent_by cl cl' = [x] \<Longrightarrow> length (sent_by cl cl') = 1" for cl cl' x
    by simp
  show ?thesis
    using updateSession_merges_and_sends [of online_client echo_update]
      updateSession_merges_and_sends [of tooled_client lookup_update]
      updateSession_merges_and_sends [of tooled_client echo_update]
      updateSession_merges_and_sends [of "new_client 24000" echo_update]
    by (auto simp: p n inh t0 t1 s0 c0 cfg f r0 r1 r2 default_session_def)
qed

subsection \<open>Sending a user message\<close>

lemma createResponse_connected:
  assumes "connected (realtime c)"
  shows "createResponse c =
     (Inr True,
      if getTurnDetectionType c = None \<and> inputAudioBuffer c \<noteq> [] then
        c\<lparr>realtime := (realtime c)\<lparr>outbox := outbox (realtime c) @
             [(''input_audio_buffer.commit'', NoData), (''response.create'', NoData)]\<rparr>,
          conversation := queueInputAudio (conversation c) (inputAudioBuffer c),
          inputAudioBuffer := []\<rparr>
      else
        c\<lparr>realtime := (realtime c)\<lparr>outbox := outbox (realtime c) @
             [(''response.create'', NoData)]\<rparr>\<rparr>)"
  using assms
  by (simp add: createResponse_def send_def isConnected_api_def byteLength_def Let_def)

lemma encode_part_cases:
  "encode_part b64 x =
     (case x of
        InputAudioContent (Some (Raw a)) t \<Rightarrow> InputAudioContent (Some (Encoded (b64 a))) t
      | _ \<Rightarrow> x)"
  by (cases "(b64, x)" rule: encode_part.cases) simp_all

lemma encode_part_not_raw: "encode_part b64 x \<noteq> InputAudioContent (Some (Raw a)) t"
  by (cases "(b64, x)" rule: encode_part.cases) simp_all

text \<open>
  C7. On a connected transport and for every content list, \<open>sendUserMessageContent\<close> is
  \<open>createResponse\<close> run after the item command, if any: it returns true, and it sends one
  \<open>conversation.item.create\<close> carrying the user message exactly when the list is
  non-empty, then what \<open>createResponse\<close> sends, which ends with \<open>response.create\<close>. In
  the message sent, every \<open>input_audio\<close> part that held raw binary holds its base64
  encoding, every other part is as it was, and no part holds raw binary.
\<close>

theorem sendUserMessageContent_encodes_and_responds:
  assumes "isConnected c"
  shows "sendUserMessageContent b64 c contents =
           createResponse
             (if contents = [] then c
              else c\<lparr>realtime := (realtime c)\<lparr>outbox := outbox (realtime c) @
                     [(''conversation.item.create'',
                       ItemData (UserMessage (map (encode_part b64) contents)))]\<rparr>\<rparr>)
       \<and> fst (sendUserMessageContent b64 c contents) = Inr True
       \<and> sent_by c (snd (sendUserMessageContent b64 c contents)) =
           (if contents = [] then []
            else [(''conversation.item.create'',
                   ItemData (UserMessage (map (encode_part b64) contents)))])
           @ (if getTurnDetectionType c = None \<and> inputAudioBuffer c \<noteq> []
              then [(''input_audio_buffer.commit'', NoData)] else [])
           @ [(''response.create'', NoData)]
       \<and> (named ''conversation.item.create'' (sent_by c (snd (sendUserMessageContent b64 c contents)))
            \<noteq> [] \<longleftrightarrow> contents \<noteq> [])
       \<and> (\<forall>i < length contents.
             map (encode_part b64) contents ! i =
               (case contents ! i of
                  InputAudioContent (Some (Raw a)) t \<Rightarrow> InputAudioContent (Some (Encoded (b64 a))) t
                | x \<Rightarrow> x))
       \<and> (\<forall>x\<in>set (map (encode_part b64) contents). \<forall>a t. x \<noteq> InputAudioContent (Some (Raw a)) t)"
proof -
  have conn: "connected (realtime c)"
    using assms by (simp add: isConnected_def isConnected_api_def)
  let ?c1 = "if contents = [] then c
             else c\<lparr>realtime := (realtime c)\<lparr>outbox := outbox (realtime c) @
                    [(''conversation.item.create'',
                      ItemData (UserMessage (map (encode_part b64) contents)))]\<rparr>\<rparr>"
  have eq: "sendUserMessageContent b64 c contents = createResponse ?c1"
    using conn by (simp add: sendUserMessageContent_def send_def isConnected_api_def)
  have conn1: "connected (realtime ?c1)"
    using conn by simp
  have td: "getTurnDetectionType ?c1 = getTurnDetectionType c"
    by (simp add: getTurnDetectionType_def)
  have res: "fst (sendUserMessageContent b64 c contents) = Inr True"
    unfolding eq createResponse_connected [OF conn1] by simp
  have sent: "sent_by c (snd (sendUserMessageContent b64 c contents)) =
           (if contents = [] then []
            else [(''conversation.item.create'',
                   ItemData (UserMessage (map (encode_part b64) contents)))])
           @ (if getTurnDetectionType c = None \<and> inputAudioBuffer c \<noteq> []
              then [(''input_audio_buffer.commit'', NoData)] else [])
           @ [(''response.create'', NoData)]"
    unfolding eq createResponse_connected [OF conn1] td
    by (simp add: sent_by_def)
  have iff: "named ''conversation.item.create'' (sent_by c (snd (sendUserMessageContent b64 c contents)))
            \<noteq> [] \<longleftrightarrow> contents \<noteq> []"
    unfolding sent by (simp add: named_def)
  have parts: "\<forall>i < length contents.
             map (encode_part b64) contents ! i =
               (case contents ! i of
                  InputAudioContent (Some (Raw a)) t \<Rightarrow> InputAudioContent (Some (Encoded (b64 a))) t
                | x \<Rightarrow> x)"
    by (auto simp: encode_part_cases split: user_content.splits option.splits audio_data.splits)
  have noraw: "\<forall>x\<in>set (map (encode_part b64) contents). \<forall>a t. x \<noteq> InputAudioContent (Some (Raw a)) t"
    by (auto simp: encode_part_not_raw)
  from eq res sent iff parts noraw show ?thesis by blast
qed


theorem sendUserMessageContent_encodes_and_responds_witness:
  "isConnected staged_client
   \<and> fst (sendUserMessageContent example_base64 staged_client example_content) = Inr True
   \<and> sent_by staged_client (snd (sendUserMessageContent example_base64 staged_client example_content)) =
       [(''conversation.item.create'',
         ItemData (UserMessage
           [InputTextContent ''hi'',
            InputAudioContent (Some (Encoded ''AAAA'')) None,
            InputAudioContent (Some (Encoded ''AAEC'')) None])),
        (''input_audio_buffer.commit'', NoData),
        (''response.create'', NoData)]
   \<and> sent_by online_client (snd (sendUserMessageContent example_base64 online_client [])) =
       [(''response.create'', NoData)]"
proof -
  have c1: "isConnected staged_client" "isConnected online_client"
    by (simp_all add: staged_client_def online_client_def isConnected_def isConnected_api_def)
  show ?thesis
    using sendUserMessageContent_encodes_and_responds [OF c1(1), of example_base64 example_content]
      sendUserMessageContent_encodes_and_responds [OF c1(2), of example_base64 "[]"]
    by (simp add: example_content_def example_base64_def staged_client_def online_client_def
        new_client_def resetConfig_def default_session_def getTurnDetectionType_def
        isConnected_def isConnected_api_def createResponse_def send_def byteLength_def
        queueInputAudio_def sent_by_def Let_def)
qed

subsection \<open>Calling a tool\<close>

lemma callTool_connected:
  assumes "connected (realtime c)"
  shows \<open>callTool parse stringify c t =
     (case tool_outcome parse c t of
        Inr result \<Rightarrow>
          createResponse
            (c\<lparr>realtime := (realtime c)\<lparr>outbox := outbox (realtime c) @
               [(''conversation.item.create'',
                 ItemData (FunctionCallOutputItem (call_id t) (map_option stringify result)))]\<rparr>\<rparr>)
      | Inl e \<Rightarrow>
          (case error_payload e of
             Inl e1 \<Rightarrow> (Inl e1, c)
           | Inr p \<Rightarrow>
               createResponse
                 (c\<lparr>realtime := (realtime c)\<lparr>outbox := outbox (realtime c) @
                    [(''conversation.item.create'',
                      ItemData (FunctionCallOutputItem (call_id t) (Some (stringify p))))]\<rparr>\<rparr>)))\<close>
  using assms
  by (auto simp: callTool_def tool_outcome_def send_def isConnected_api_def Let_def
      split: sum.splits property.splits)

lemma tool_outcome_tools:
  "tools c' = tools c \<Longrightarrow> tool_outcome parse c' t = tool_outcome parse c t"
  by (simp add: tool_outcome_def split: sum.splits property.splits)

lemma error_payload_nullish: "(\<exists>e1. error_payload e = Inl e1) \<longleftrightarrow> e = ThrownNullish"
  by (cases e rule: error_payload.cases) simp_all

text \<open>
  What the handler of \<open>response.output_item.done\<close> does on a connected transport when the
  assembler returns a completed item with a tool descriptor, and neither parsing nor the
  handler throws \<open>null\<close> or \<open>undefined\<close>: it sends exactly one \<open>conversation.item.create\<close>
  carrying a \<open>function_call_output\<close> for the call id, and after it exactly one
  \<open>response.create\<close> (with the commit of staged audio between them, if \<open>createResponse\<close>
  makes one). The output is the serialized result of the handler, and the serialized error
  payload when parsing throws, when no handler is found under the name, and when the
  handler throws.
\<close>

lemma tool_call_output_then_response:
  assumes "isConnected c"
    and "proc ev None (conversation c) = Inr ((Some item, delta), conv)"
    and "status item = Some completed"
    and "tool (formatted item) = Some t"
    and "tool_outcome parse c t \<noteq> Inl ThrownNullish"
  shows \<open>fst (on_response_output_item_done proc parse stringify c ev) = Inr True
    \<and> sent_by c (snd (on_response_output_item_done proc parse stringify c ev)) =
        [(''conversation.item.create'',
          ItemData (FunctionCallOutputItem (call_id t)
            (case tool_outcome parse c t of
               Inr result \<Rightarrow> map_option stringify result
             | Inl e \<Rightarrow>
                 (case error_payload e of
                    Inr p \<Rightarrow> Some (stringify p)
                  | Inl e1 \<Rightarrow> None))))]
        @ (if getTurnDetectionType c = None \<and> inputAudioBuffer c \<noteq> []
           then [(''input_audio_buffer.commit'', NoData)] else [])
        @ [(''response.create'', NoData)]
    \<and> length (named ''conversation.item.create''
          (sent_by c (snd (on_response_output_item_done proc parse stringify c ev)))) = 1
    \<and> length (named ''response.create''
          (sent_by c (snd (on_response_output_item_done proc parse stringify c ev)))) = 1\<close>
proof -
  define out where \<open>out = (case tool_outcome parse c t of
               Inr result \<Rightarrow> map_option stringify result
             | Inl e \<Rightarrow>
                 (case error_payload e of
                    Inr p \<Rightarrow> Some (stringify p)
                  | Inl e1 \<Rightarrow> None))\<close>
  define c2 where "c2 = c\<lparr>conversation := conv,
      dispatched := dispatched c @ [(''conversation.updated'', ItemDelta item delta),
        (''conversation.item.completed'', ItemOnly (Some item))]\<rparr>"
  define c3 where "c3 = c2\<lparr>realtime := (realtime c2)\<lparr>outbox := outbox (realtime c2) @
      [(''conversation.item.create'', ItemData (FunctionCallOutputItem (call_id t) out))]\<rparr>\<rparr>"
  have conn2: "connected (realtime c2)"
    using assms(1) by (simp add: c2_def isConnected_def isConnected_api_def)
  have conn3: "connected (realtime c3)"
    using conn2 by (simp add: c3_def)
  have step: "on_response_output_item_done proc parse stringify c ev =
      callTool parse stringify c2 t"
    using assms(2-4)
    by (simp add: on_response_output_item_done_def handlerWithDispatch_def handler_ev_def
        dispatch_def Let_def c2_def)
  have tl: "tool_outcome parse c2 t = tool_outcome parse c t"
    by (rule tool_outcome_tools) (simp add: c2_def)
  have call: "callTool parse stringify c2 t = createResponse c3"
  proof (cases "tool_outcome parse c t")
    case (Inr result)
    then show ?thesis
      by (simp add: callTool_connected [OF conn2] tl c3_def out_def)
  next
    case (Inl e)
    with assms(5) have "e \<noteq> ThrownNullish" by simp
    then obtain p where p: "error_payload e = Inr p"
      using error_payload_nullish [of e] by (cases "error_payload e") auto
    show ?thesis
      by (simp add: callTool_connected [OF conn2] tl c3_def out_def Inl p)
  qed
  have td: "getTurnDetectionType c3 = getTurnDetectionType c"
    by (simp add: c3_def c2_def getTurnDetectionType_def)
  have buf: "inputAudioBuffer c3 = inputAudioBuffer c"
    by (simp add: c3_def c2_def)
  have o3: "outbox (realtime c3) = outbox (realtime c) @
      [(''conversation.item.create'', ItemData (FunctionCallOutputItem (call_id t) out))]"
    by (simp add: c3_def c2_def)
  have res: "fst (createResponse c3) = Inr True"
    by (simp add: createResponse_connected [OF conn3])
  have sent: "outbox (realtime (snd (createResponse c3))) =
      outbox (realtime c3)
      @ (if getTurnDetectionType c = None \<and> inputAudioBuffer c \<noteq> []
         then [(''input_audio_buffer.commit'', NoData)] else [])
      @ [(''response.create'', NoData)]"
    by (simp add: createResponse_connected [OF conn3] td buf)
  have sb: "sent_by c (snd (createResponse c3)) =
      [(''conversation.item.create'', ItemData (FunctionCallOutputItem (call_id t) out))]
      @ (if getTurnDetectionType c = None \<and> inputAudioBuffer c \<noteq> []
         then [(''input_audio_buffer.commit'', NoData)] else [])
      @ [(''response.create'', NoData)]"
    by (simp add: sent_by_def sent o3)
  have n1: "length (named ''conversation.item.create'' (sent_by c (snd (createResponse c3)))) = 1"
    unfolding sb by (simp add: named_def)
  have n2: "length (named ''response.create'' (sent_by c (snd (createResponse c3)))) = 1"
    unfolding sb by (simp add: named_def)
  show ?thesis
    unfolding step call
    using res sb n1 n2
    unfolding out_def by simp
qed

lemma tooled_client_call:
  "isConnected tooled_client"
  "example_processEvent (Some weather_call_item) None (conversation cl)
     = Inr ((Some weather_call_item, None), conversation cl)"
  "status weather_call_item = Some completed"
  "tool (formatted weather_call_item) = Some weather_call"
  "tool_outcome example_parse tooled_client weather_call = Inr (Some (JNum 2))"
  "tool_outcome example_parse online_client weather_call
     = Inl (Error (''Tool '' @ [CHR 0x22] @ ''get_weather'' @ [CHR 0x22] @ '' has not been added''))"
  "tool_outcome example_parse rejecting_client weather_call = Inl ThrownNullish"
  by (simp_all add: tooled_client_def rejecting_client_def staged_client_def online_client_def
      new_client_def resetConfig_def isConnected_def isConnected_api_def
      example_processEvent_def weather_call_item_def weather_call_def tool_outcome_def
      example_parse_def get_property_def Object_prototype_names_def weather_handler_def
      rejecting_handler_def)

text \<open>
  C3 holds on the code while what is thrown has a \<open>message\<close> to read, and fails when a
  handler throws \<open>null\<close> or \<open>undefined\<close>, or returns a promise rejected with no reason: the
  \<open>catch\<close> block then throws itself while it builds the error payload. With such a handler
  registered, and a completed call of its tool, the step throws, sends neither the
  \<open>function_call_output\<close> nor \<open>response.create\<close>, and sends nothing else either.
\<close>

theorem tool_call_nullish_rejection_evaluation:
  "isConnected rejecting_client
   \<and> map_of (tools rejecting_client) ''get_weather''
       = Some \<lparr>tool_definition = weather_definition, handler = rejecting_handler\<rparr>
   \<and> rejecting_handler (JObj [(''a'', JNum 1)]) = Inl ThrownNullish
   \<and> isl (fst (on_response_output_item_done example_processEvent example_parse
                  example_stringify rejecting_client (Some weather_call_item)))
   \<and> sent_by rejecting_client
        (snd (on_response_output_item_done example_processEvent example_parse
                example_stringify rejecting_client (Some weather_call_item))) = []"
proof -
  have conn: "connected (realtime rejecting_client)"
    by (simp add: rejecting_client_def staged_client_def online_client_def)
  define c2 where "c2 = rejecting_client\<lparr>dispatched := dispatched rejecting_client @
      [(''conversation.updated'', ItemDelta weather_call_item None),
       (''conversation.item.completed'', ItemOnly (Some weather_call_item))]\<rparr>"
  have step: "on_response_output_item_done example_processEvent example_parse
      example_stringify rejecting_client (Some weather_call_item)
      = callTool example_parse example_stringify c2 weather_call"
    by (simp add: on_response_output_item_done_def handlerWithDispatch_def handler_ev_def
        dispatch_def Let_def c2_def tooled_client_call)
  have conn2: "connected (realtime c2)"
    using conn by (simp add: c2_def)
  have "tool_outcome example_parse c2 weather_call
      = tool_outcome example_parse rejecting_client weather_call"
    by (rule tool_outcome_tools) (simp add: c2_def)
  then have o: "tool_outcome example_parse c2 weather_call = Inl ThrownNullish"
    by (simp add: tooled_client_call(7))
  have call: "callTool example_parse example_stringify c2 weather_call
      = (Inl (TypeError ''Cannot read properties of null''), c2)"
    by (simp add: callTool_connected [OF conn2] o)
  have "isConnected rejecting_client"
    using conn by (simp add: isConnected_def isConnected_api_def)
  moreover have "map_of (tools rejecting_client) ''get_weather''
       = Some \<lparr>tool_definition = weather_definition, handler = rejecting_handler\<rparr>"
    by (simp add: rejecting_client_def)
  moreover have "rejecting_handler (JObj [(''a'', JNum 1)]) = Inl ThrownNullish"
    by (simp add: rejecting_handler_def)
  ultimately show ?thesis
    unfolding step call by (simp add: c2_def sent_by_def)
qed

subsection \<open>The input audio buffer\<close>

lemma kept_same:
  "outbox (realtime c') = outbox (realtime c) \<Longrightarrow> inputAudioBuffer c' = inputAudioBuffer c
   \<Longrightarrow> kept_or_committed c c'"
  by (simp add: kept_or_committed_def sent_by_def)

lemma kept_sent_other:
  "outbox (realtime c') = outbox (realtime c) @ [(n, d)] \<Longrightarrow> n \<noteq> ''input_audio_buffer.commit''
   \<Longrightarrow> inputAudioBuffer c' = inputAudioBuffer c \<Longrightarrow> kept_or_committed c c'"
  by (simp add: kept_or_committed_def sent_by_def)

lemma kept_after_other:
  assumes "outbox (realtime c1) = outbox (realtime c) @ [(n, d)]"
    and "n \<noteq> ''input_audio_buffer.commit''"
    and "inputAudioBuffer c1 = inputAudioBuffer c"
    and "kept_or_committed c1 c2"
  shows "kept_or_committed c c2"
proof -
  define s2 where "s2 = sent_by c1 c2"
  have o2: "outbox (realtime c2) = outbox (realtime c) @ (n, d) # s2"
    using assms(1,4) by (simp add: kept_or_committed_def s2_def)
  have sb: "sent_by c c2 = (n, d) # s2"
    by (simp add: sent_by_def o2)
  have b2: "if ''input_audio_buffer.commit'' \<in> fst ` set s2
      then inputAudioBuffer c2 = [] else inputAudioBuffer c2 = inputAudioBuffer c"
    using assms(3,4) by (simp add: kept_or_committed_def s2_def)
  show ?thesis
    unfolding kept_or_committed_def sb using o2 b2 assms(2) by auto
qed

lemma createResponse_not_connected:
  "\<not> connected (realtime c) \<Longrightarrow> snd (createResponse c) = c"
  by (simp add: createResponse_def send_def isConnected_api_def)

lemma kept_createResponse: "kept_or_committed c (snd (createResponse c))"
proof (cases "connected (realtime c)")
  case True
  then show ?thesis
    by (simp add: createResponse_connected kept_or_committed_def sent_by_def)
next
  case False
  then show ?thesis
    by (simp add: createResponse_not_connected kept_same)
qed

lemma kept_updateSession: "kept_or_committed c (snd (updateSession c p))"
  by (simp add: updateSession_def send_def Let_def kept_or_committed_def sent_by_def
      split: sum.splits)

lemma kept_connect: "kept_or_committed c (snd (connect c))"
  by (simp add: connect_def updateSession_no_session isConnected_def isConnected_api_def
      connect_api_def kept_or_committed_def sent_by_def)

lemma kept_addTool: "kept_or_committed c (snd (addTool c d h))"
  by (simp add: addTool_def updateSession_no_session isConnected_def isConnected_api_def
      Let_def kept_or_committed_def sent_by_def split: option.splits handler_arg.splits)

lemma kept_removeTool: "kept_or_committed c (snd (removeTool c n))"
  by (simp add: removeTool_def kept_same)

lemma kept_deleteItem: "kept_or_committed c (snd (deleteItem c i))"
  by (simp add: deleteItem_def send_def kept_or_committed_def sent_by_def)

lemma kept_sendUserMessageContent:
  "kept_or_committed c (snd (sendUserMessageContent b64 c contents))"
proof (cases "connected (realtime c) \<and> contents \<noteq> []")
  case True
  let ?c1 = "c\<lparr>realtime := (realtime c)\<lparr>outbox := outbox (realtime c) @
      [(''conversation.item.create'', ItemData (UserMessage (map (encode_part b64) contents)))]\<rparr>\<rparr>"
  have eq: "sendUserMessageContent b64 c contents = createResponse ?c1"
    using True by (simp add: sendUserMessageContent_def send_def isConnected_api_def)
  have ne: "''conversation.item.create'' \<noteq> ''input_audio_buffer.commit''"
    by simp
  have o1: "outbox (realtime ?c1) = outbox (realtime c) @
      [(''conversation.item.create'', ItemData (UserMessage (map (encode_part b64) contents)))]"
    by simp
  have b1: "inputAudioBuffer ?c1 = inputAudioBuffer c"
    by simp
  show ?thesis
    unfolding eq
    by (rule kept_after_other [OF o1 ne b1 kept_createResponse])
next
  case False
  then consider "contents = []" | "contents \<noteq> []" "\<not> connected (realtime c)" by blast
  then show ?thesis
  proof cases
    case 1
    then show ?thesis by (simp add: sendUserMessageContent_def kept_createResponse)
  next
    case 2
    then show ?thesis
      by (simp add: sendUserMessageContent_def send_def isConnected_api_def kept_same)
  qed
qed

lemma kept_cancelResponse: "kept_or_committed c (snd (cancelResponse c i n))"
  by (simp add: cancelResponse_def send_def Let_def kept_or_committed_def sent_by_def
      split: option.splits)

lemma kept_handler_ev: "kept_or_committed c (snd (handler_ev proc c ev args))"
  by (simp add: handler_ev_def kept_same split: sum.splits prod.splits)

lemma handlerWithDispatch_frame:
  "realtime (snd (handlerWithDispatch proc c ev)) = realtime c
   \<and> inputAudioBuffer (snd (handlerWithDispatch proc c ev)) = inputAudioBuffer c"
  by (simp add: handlerWithDispatch_def handler_ev_def dispatch_def
      split: sum.splits prod.splits option.splits)

lemma kept_handlerWithDispatch: "kept_or_committed c (snd (handlerWithDispatch proc c ev))"
  by (simp add: handlerWithDispatch_frame kept_same)

lemma kept_on_speech_started: "kept_or_committed c (snd (on_speech_started proc c ev))"
  by (simp add: on_speech_started_def handler_ev_def dispatch_def kept_same
      split: sum.splits prod.splits)

lemma kept_on_speech_stopped: "kept_or_committed c (snd (on_speech_stopped proc c ev))"
  by (simp add: on_speech_stopped_def handler_ev_def kept_same split: sum.splits prod.splits)

lemma kept_on_conversation_item_created:
  "kept_or_committed c (snd (on_conversation_item_created proc c ev))"
  using handlerWithDispatch_frame [of proc c ev]
  by (auto simp: on_conversation_item_created_def dispatch_def Let_def kept_same
      split: sum.splits prod.splits option.splits)

lemma kept_from_same:
  "outbox (realtime c1) = outbox (realtime c) \<Longrightarrow> inputAudioBuffer c1 = inputAudioBuffer c
   \<Longrightarrow> kept_or_committed c1 c2 \<Longrightarrow> kept_or_committed c c2"
  by (simp add: kept_or_committed_def sent_by_def)

lemma callTool_not_connected:
  "\<not> connected (realtime c) \<Longrightarrow> snd (callTool parse stringify c t) = c"
  by (auto simp: callTool_def send_def isConnected_api_def Let_def
      split: sum.splits property.splits)

lemma kept_callTool: "kept_or_committed c (snd (callTool parse stringify c t))"
proof (cases "connected (realtime c)")
  case True
  have ne: "''conversation.item.create'' \<noteq> ''input_audio_buffer.commit''"
    by simp
  have after: "kept_or_committed c
      (snd (createResponse (c\<lparr>realtime := (realtime c)\<lparr>outbox := outbox (realtime c) @
         [(''conversation.item.create'', d)]\<rparr>\<rparr>)))" for d
    by (rule kept_after_other [OF _ ne _ kept_createResponse]) simp_all
  show ?thesis
  proof (cases "tool_outcome parse c t")
    case (Inr result)
    then show ?thesis
      by (simp add: callTool_connected [OF True] after)
  next
    case (Inl e)
    show ?thesis
    proof (cases "error_payload e")
      case (Inl e1)
      with \<open>tool_outcome parse c t = Inl e\<close> show ?thesis
        by (simp add: callTool_connected [OF True] kept_same)
    next
      case (Inr p)
      with \<open>tool_outcome parse c t = Inl e\<close> show ?thesis
        by (simp add: callTool_connected [OF True] after)
    qed
  qed
next
  case False
  then show ?thesis
    by (simp add: callTool_not_connected kept_same)
qed

lemma kept_on_response_output_item_done:
  "kept_or_committed c (snd (on_response_output_item_done proc parse stringify c ev))"
proof -
  obtain res c1 where h: "handlerWithDispatch proc c ev = (res, c1)"
    by (cases "handlerWithDispatch proc c ev")
  have f1: "outbox (realtime c1) = outbox (realtime c)" "inputAudioBuffer c1 = inputAudioBuffer c"
    using handlerWithDispatch_frame [of proc c ev] by (simp_all add: h)
  show ?thesis
  proof (cases res)
    case (Inl e)
    then show ?thesis
      using f1 by (simp add: on_response_output_item_done_def h kept_same)
  next
    case (Inr r)
    obtain item delta where r: "r = (item, delta)" by (cases r)
    show ?thesis
    proof (cases item)
      case None
      then show ?thesis
        using f1 by (simp add: on_response_output_item_done_def h Inr r kept_same)
    next
      case (Some it)
      define c2 where "c2 = (if status it = Some completed
          then dispatch c1 ''conversation.item.completed'' (ItemOnly (Some it)) else c1)"
      have f2: "outbox (realtime c2) = outbox (realtime c)"
        "inputAudioBuffer c2 = inputAudioBuffer c"
        using f1 by (simp_all add: c2_def dispatch_def)
      show ?thesis
      proof (cases "tool (formatted it)")
        case None
        then show ?thesis
          using f2
          by (simp add: on_response_output_item_done_def h Inr r Some Let_def kept_same
              c2_def [symmetric])
      next
        case (Some t)
        have "on_response_output_item_done proc parse stringify c ev
            = callTool parse stringify c2 t"
          by (simp add: on_response_output_item_done_def h Inr r \<open>item = Some it\<close> Some Let_def
              c2_def [symmetric])
        then show ?thesis
          using kept_from_same [OF f2 kept_callTool] by simp
      qed
    qed
  qed
qed

lemma kept_exec:
  assumes "op \<noteq> OpResetConfig" "op \<noteq> OpReset" "\<forall>b. op \<noteq> OpAppendInputAudio b"
  shows "kept_or_committed c (exec env c op)"
  using assms
  by (cases op)
    (simp_all add: kept_connect kept_addTool kept_removeTool kept_deleteItem kept_updateSession
      kept_sendUserMessageContent kept_createResponse kept_cancelResponse kept_handler_ev
      kept_handlerWithDispatch kept_on_speech_started kept_on_speech_stopped
      kept_on_conversation_item_created kept_on_response_output_item_done
      kept_same disconnect_def disconnect_api_def on_session_created_def)

lemma appendInputAudio_buffer:
  "outbox (realtime (snd (appendInputAudio b64 c b)))
     = outbox (realtime c) @ sent_by c (snd (appendInputAudio b64 c b))
   \<and> ''input_audio_buffer.commit'' \<notin> fst ` set (sent_by c (snd (appendInputAudio b64 c b)))
   \<and> (inputAudioBuffer (snd (appendInputAudio b64 c b)) = inputAudioBuffer c
      \<or> inputAudioBuffer (snd (appendInputAudio b64 c b)) = inputAudioBuffer c @ b)"
  by (simp add: appendInputAudio_def send_def sent_by_def mergeInt16Arrays_def)

lemma reset_buffer:
  "inputAudioBuffer (resetConfig c) = [] \<and> inputAudioBuffer (reset c) = []
   \<and> outbox (realtime (resetConfig c)) = outbox (realtime c)
   \<and> outbox (realtime (reset c)) = outbox (realtime c)"
  by (simp add: resetConfig_def reset_def disconnect_def disconnect_api_def)

text \<open>
  C8, as stated, fails on the code: \<open>disconnect\<close> clears the conversation and closes the
  transport, and leaves the input audio buffer as it was.
\<close>

theorem disconnect_keeps_buffer_counterexample:
  "inputAudioBuffer staged_client = [1, 2, 3]
   \<and> inputAudioBuffer (disconnect staged_client) = [1, 2, 3]"
  by (simp add: disconnect_def staged_client_def)

text \<open>
  C8, amended. The input audio buffer is empty after \<open>_resetConfig\<close> and after \<open>reset\<close>,
  and after every step that sends a commit: only \<open>createResponse\<close> sends one, and it does
  so on a connected transport when no turn detection is active and the buffer is non-empty.
  \<open>disconnect\<close> leaves the buffer unchanged. Every other step, whichever method or handler
  it is, leaves the buffer unchanged or, when it is \<open>appendInputAudio\<close>, appends its
  argument to it.
\<close>

theorem inputAudioBuffer_reset_or_grows:
  shows "inputAudioBuffer (exec env c OpResetConfig) = []
    \<and> inputAudioBuffer (exec env c OpReset) = []
    \<and> inputAudioBuffer (exec env c OpDisconnect) = inputAudioBuffer c
    \<and> (isConnected c \<and> getTurnDetectionType c = None \<and> inputAudioBuffer c \<noteq> [] \<longrightarrow>
          ''input_audio_buffer.commit'' \<in> fst ` set (sent_by c (exec env c OpCreateResponse)))
    \<and> outbox (realtime (exec env c op)) = outbox (realtime c) @ sent_by c (exec env c op)
    \<and> (''input_audio_buffer.commit'' \<in> fst ` set (sent_by c (exec env c op)) \<longrightarrow>
          inputAudioBuffer (exec env c op) = [])
    \<and> (op \<noteq> OpResetConfig \<and> op \<noteq> OpReset
        \<and> ''input_audio_buffer.commit'' \<notin> fst ` set (sent_by c (exec env c op)) \<longrightarrow>
          inputAudioBuffer (exec env c op) = inputAudioBuffer c
          \<or> (\<exists>b. op = OpAppendInputAudio b
                \<and> inputAudioBuffer (exec env c op) = inputAudioBuffer c @ b))"
proof -
  have a: "inputAudioBuffer (exec env c OpResetConfig) = []"
    "inputAudioBuffer (exec env c OpReset) = []"
    using reset_buffer [of c] by simp_all
  have d: "inputAudioBuffer (exec env c OpDisconnect) = inputAudioBuffer c"
    by (simp add: disconnect_def)
  have cm: "''input_audio_buffer.commit'' \<in> fst ` set (sent_by c (exec env c OpCreateResponse))"
    if "isConnected c \<and> getTurnDetectionType c = None \<and> inputAudioBuffer c \<noteq> []"
    using that
    by (simp add: createResponse_connected isConnected_def isConnected_api_def sent_by_def)
  have rest: "outbox (realtime (exec env c op)) = outbox (realtime c) @ sent_by c (exec env c op)
    \<and> (''input_audio_buffer.commit'' \<in> fst ` set (sent_by c (exec env c op)) \<longrightarrow>
          inputAudioBuffer (exec env c op) = [])
    \<and> (op \<noteq> OpResetConfig \<and> op \<noteq> OpReset
        \<and> ''input_audio_buffer.commit'' \<notin> fst ` set (sent_by c (exec env c op)) \<longrightarrow>
          inputAudioBuffer (exec env c op) = inputAudioBuffer c
          \<or> (\<exists>b. op = OpAppendInputAudio b
                \<and> inputAudioBuffer (exec env c op) = inputAudioBuffer c @ b))"
  proof (cases "op = OpResetConfig \<or> op = OpReset")
    case True
    then show ?thesis
      using reset_buffer [of c] by (auto simp: sent_by_def)
  next
    case False
    show ?thesis
    proof (cases "\<exists>b. op = OpAppendInputAudio b")
      case True
      then obtain b where "op = OpAppendInputAudio b" by blast
      then show ?thesis
        using appendInputAudio_buffer [of "arrayBufferToBase64 env" c b] by auto
    next
      case noapp: False
      from False noapp have "kept_or_committed c (exec env c op)"
        by (intro kept_exec) auto
      then show ?thesis
        by (auto simp: kept_or_committed_def split: if_splits)
    qed
  qed
  from a d cm rest show ?thesis by blast
qed

theorem inputAudioBuffer_reset_or_grows_witness:
  "inputAudioBuffer (exec example_env staged_client OpReset) = []
   \<and> inputAudioBuffer (exec example_env staged_client OpDisconnect) = [1, 2, 3]
   \<and> isConnected staged_client \<and> getTurnDetectionType staged_client = None
   \<and> inputAudioBuffer staged_client \<noteq> []
   \<and> ''input_audio_buffer.commit''
        \<in> fst ` set (sent_by staged_client (exec example_env staged_client OpCreateResponse))
   \<and> inputAudioBuffer (exec example_env staged_client OpCreateResponse) = []
   \<and> OpAppendInputAudio [4, 5] \<noteq> (OpResetConfig :: ItemType option operation)
   \<and> OpAppendInputAudio [4, 5] \<noteq> (OpReset :: ItemType option operation)
   \<and> ''input_audio_buffer.commit''
        \<notin> fst ` set (sent_by staged_client
                        (exec example_env staged_client (OpAppendInputAudio [4, 5])))
   \<and> inputAudioBuffer (exec example_env staged_client (OpAppendInputAudio [4, 5]))
       = [1, 2, 3, 4, 5]"
  using inputAudioBuffer_reset_or_grows [of example_env staged_client OpCreateResponse]
    inputAudioBuffer_reset_or_grows [of example_env staged_client "OpAppendInputAudio [4, 5]"]
  by (simp add: staged_client_def online_client_def new_client_def resetConfig_def reset_def
      disconnect_def disconnect_api_def default_session_def getTurnDetectionType_def
      isConnected_def isConnected_api_def createResponse_def send_def byteLength_def
      queueInputAudio_def sent_by_def Let_def appendInputAudio_def mergeInt16Arrays_def
      example_env_def clear_def)

end
